theory Spec2Isabelle
  imports Main
begin

section \<open>Python values\<close>

text \<open>
  The comparison and template code of \<^verbatim>\<open>arcpyext\<close> works on plain Python data: the
  dictionaries, lists and scalars that \<^verbatim>\<open>list_document_data_sources\<close> builds from a
  project. A dictionary is an association list in insertion order with string keys (all keys
  of the source are string literals); iterating it yields its keys. Floats do not occur in
  the snapshots and are not modelled. A \<^typ>\<open>char\<close> stands for the code point of the same
  number.
\<close>

datatype pyval =
    PNone
  | PBool bool
  | PInt int
  | PStr string
  | PList "pyval list"
  | PDict "(string \<times> pyval) list"

datatype pyerr =
    TypeError | KeyError | IndexError | ValueError | NameError
  | UnboundLocalError | AttributeError | RuntimeError

text \<open>
  Python's \<^verbatim>\<open>==\<close>: \<^verbatim>\<open>True == 1\<close> and \<^verbatim>\<open>False == 0\<close> hold, lists compare element by
  element, dictionaries compare as sets of key/value pairs.
\<close>

fun py_eq :: "pyval \<Rightarrow> pyval \<Rightarrow> bool" where
  "py_eq PNone PNone = True"
| "py_eq (PBool a) (PBool b) = (a = b)"
| "py_eq (PInt a) (PInt b) = (a = b)"
| "py_eq (PBool a) (PInt b) = ((if a then 1 else 0) = b)"
| "py_eq (PInt a) (PBool b) = (a = (if b then 1 else 0))"
| "py_eq (PStr a) (PStr b) = (a = b)"
| "py_eq (PList xs) (PList ys) = list_all2 py_eq xs ys"
| "py_eq (PDict d) (PDict e) =
     (length d = length e \<and>
      list_all (\<lambda>(k, v). list_ex (\<lambda>(k', v'). k = k' \<and> py_eq v v') e) d)"
| "py_eq _ _ = False"

text \<open>An exception is the left summand; \<open>bind_res\<close> sequences two steps.\<close>

definition bind_res :: "pyerr + 'a \<Rightarrow> ('a \<Rightarrow> pyerr + 'b) \<Rightarrow> pyerr + 'b" where
  "bind_res r f = (case r of Inl e \<Rightarrow> Inl e | Inr x \<Rightarrow> f x)"

fun map_res :: "('a \<Rightarrow> pyerr + 'b) \<Rightarrow> 'a list \<Rightarrow> pyerr + 'b list" where
  "map_res f [] = Inr []"
| "map_res f (x # xs) =
     bind_res (f x) (\<lambda>y. bind_res (map_res f xs) (\<lambda>ys. Inr (y # ys)))"

fun filter_res :: "('a \<Rightarrow> pyerr + bool) \<Rightarrow> 'a list \<Rightarrow> pyerr + 'a list" where
  "filter_res p [] = Inr []"
| "filter_res p (x # xs) =
     bind_res (p x) (\<lambda>c. bind_res (filter_res p xs) (\<lambda>ys. Inr (if c then x # ys else ys)))"

text \<open>\<^verbatim>\<open>x and y\<close> on booleans: \<open>y\<close> is not evaluated when \<open>x\<close> is false.\<close>

definition and_res :: "pyerr + bool \<Rightarrow> pyerr + bool \<Rightarrow> pyerr + bool" where
  "and_res x y = (case x of Inl e \<Rightarrow> Inl e | Inr c \<Rightarrow> if c then y else Inr False)"

definition not_res :: "pyerr + bool \<Rightarrow> pyerr + bool" where
  "not_res x = (case x of Inl e \<Rightarrow> Inl e | Inr c \<Rightarrow> Inr (\<not> c))"

definition is_substring :: "string \<Rightarrow> string \<Rightarrow> bool" where
  "is_substring k s = list_ex (\<lambda>i. take (length k) (drop i s) = k) [0..<Suc (length s)]"

text \<open>
  \<^verbatim>\<open>k in c\<close> for a string \<open>k\<close>: key membership in a dictionary, substring test in a
  string, element membership in a list, \<^verbatim>\<open>TypeError\<close> otherwise.
\<close>

fun py_in :: "string \<Rightarrow> pyval \<Rightarrow> pyerr + bool" where
  "py_in k (PDict d) = Inr (k \<in> set (map fst d))"
| "py_in k (PStr s) = Inr (is_substring k s)"
| "py_in k (PList xs) = Inr (list_ex (py_eq (PStr k)) xs)"
| "py_in k _ = Inl TypeError"

text \<open>\<^verbatim>\<open>c[k]\<close> for a string \<open>k\<close>: only a dictionary can be subscripted by a string.\<close>

fun py_getitem :: "pyval \<Rightarrow> string \<Rightarrow> pyerr + pyval" where
  "py_getitem (PDict d) k = (case map_of d k of Some v \<Rightarrow> Inr v | None \<Rightarrow> Inl KeyError)"
| "py_getitem _ k = Inl TypeError"

text \<open>\<^verbatim>\<open>c[k] = v\<close>: an existing key keeps its position, a new key goes last.\<close>

fun py_setitem :: "pyval \<Rightarrow> string \<Rightarrow> pyval \<Rightarrow> pyerr + pyval" where
  "py_setitem (PDict d) k v =
     Inr (PDict (if k \<in> set (map fst d)
                 then map (\<lambda>(k', v'). if k' = k then (k', v) else (k', v')) d
                 else d @ [(k, v)]))"
| "py_setitem _ k v = Inl TypeError"

text \<open>\<^verbatim>\<open>for x in c\<close>: the elements of a list, the keys of a dictionary, the characters of a string.\<close>

fun py_iter :: "pyval \<Rightarrow> pyerr + pyval list" where
  "py_iter (PList xs) = Inr xs"
| "py_iter (PDict d) = Inr (map (\<lambda>(k, v). PStr k) d)"
| "py_iter (PStr s) = Inr (map (\<lambda>c. PStr [c]) s)"
| "py_iter _ = Inl TypeError"

fun py_len :: "pyval \<Rightarrow> pyerr + nat" where
  "py_len (PList xs) = Inr (length xs)"
| "py_len (PDict d) = Inr (length d)"
| "py_len (PStr s) = Inr (length s)"
| "py_len _ = Inl TypeError"

text \<open>Lists and dictionaries cannot be dictionary keys or set elements.\<close>

fun hashable :: "pyval \<Rightarrow> bool" where
  "hashable (PList xs) = False"
| "hashable (PDict d) = False"
| "hashable _ = True"

subsection \<open>\<^verbatim>\<open>str\<close>, \<^verbatim>\<open>repr\<close> and \<^verbatim>\<open>int\<close>\<close>

text \<open>
  The field hash of \<^verbatim>\<open>_layer_diff\<close> formats values with \<^verbatim>\<open>%s\<close> and reads the index
  back with \<^verbatim>\<open>int\<close>. Both are modelled for the code points below 256; the cap that recent
  CPython versions put on the number of digits of such a conversion is not.
\<close>

function digits :: "nat \<Rightarrow> string" where
  "digits n = (if n < 10 then [''0123456789'' ! n]
               else digits (n div 10) @ [''0123456789'' ! (n mod 10)])"
  by pat_completeness auto
termination
  by (relation "measure id") auto

declare digits.simps [simp del]

definition str_int :: "int \<Rightarrow> string" where
  "str_int i = (if i < 0 then CHR ''-'' # digits (nat (- i)) else digits (nat i))"

definition intercalate :: "string \<Rightarrow> string list \<Rightarrow> string" where
  "intercalate sep xs = (case xs of [] \<Rightarrow> [] | y # ys \<Rightarrow> y @ concat (map (\<lambda>z. sep @ z) ys))"

definition hex2 :: "nat \<Rightarrow> string" where
  "hex2 n = [''0123456789abcdef'' ! (n div 16), ''0123456789abcdef'' ! (n mod 16)]"

text \<open>
  \<^verbatim>\<open>repr\<close> of one character inside the quotes \<open>q\<close>: backslash and the quote are escaped,
  tab, newline and carriage return have their letters, other non-printable code points are
  written \<^verbatim>\<open>\xNN\<close>.
\<close>

definition repr_char :: "char \<Rightarrow> char \<Rightarrow> string" where
  "repr_char q c =
     (let n = (of_char c :: nat) in
      if c = CHR 0x5C then [CHR 0x5C, CHR 0x5C]
      else if c = q then [CHR 0x5C, q]
      else if n = 9 then [CHR 0x5C, CHR ''t'']
      else if n = 10 then [CHR 0x5C, CHR ''n'']
      else if n = 13 then [CHR 0x5C, CHR ''r'']
      else if n < 32 \<or> n = 127 \<or> (128 \<le> n \<and> n \<le> 160) \<or> n = 173
        then [CHR 0x5C, CHR ''x''] @ hex2 n
      else [c])"

definition repr_str :: "string \<Rightarrow> string" where
  "repr_str s =
     (let q = (if CHR 0x27 \<in> set s \<and> CHR 0x22 \<notin> set s then CHR 0x22 else CHR 0x27)
      in [q] @ concat (map (repr_char q) s) @ [q])"

fun py_repr :: "pyval \<Rightarrow> string" where
  "py_repr PNone = ''None''"
| "py_repr (PBool b) = (if b then ''True'' else ''False'')"
| "py_repr (PInt i) = str_int i"
| "py_repr (PStr s) = repr_str s"
| "py_repr (PList xs) = ''['' @ intercalate '', '' (map py_repr xs) @ '']''"
| "py_repr (PDict d) =
     ''{'' @ intercalate '', '' (map (\<lambda>(k, v). repr_str k @ '': '' @ py_repr v) d) @ ''}''"

text \<open>\<^verbatim>\<open>"%s" % v\<close> formats with \<^verbatim>\<open>str\<close>: a string is itself, anything else its \<^verbatim>\<open>repr\<close>.\<close>

definition py_str :: "pyval \<Rightarrow> string" where
  "py_str v = (case v of PStr s \<Rightarrow> s | _ \<Rightarrow> py_repr v)"

text \<open>The whitespace \<^verbatim>\<open>int\<close> skips around the digits.\<close>

definition is_space :: "char \<Rightarrow> bool" where
  "is_space c = (let n = (of_char c :: nat) in
     (9 \<le> n \<and> n \<le> 13) \<or> n = 32 \<or> n = 133 \<or> n = 160)"

definition is_digit :: "char \<Rightarrow> bool" where
  "is_digit c = (let n = (of_char c :: nat) in 48 \<le> n \<and> n \<le> 57)"

text \<open>Decimal digits with single underscores between digits; \<open>None\<close> when malformed.\<close>

fun digit_groups :: "string \<Rightarrow> nat option \<Rightarrow> nat option" where
  "digit_groups [] acc = acc"
| "digit_groups (c # cs) acc =
     (if is_digit c
      then digit_groups cs
             (Some ((case acc of None \<Rightarrow> 0 | Some n \<Rightarrow> 10 * n) + (of_char c - 48)))
      else if c = CHR ''_'' \<and> acc \<noteq> None \<and> cs \<noteq> [] \<and> is_digit (hd cs)
      then digit_groups cs acc
      else None)"

text \<open>\<^verbatim>\<open>int(s)\<close> for a string: surrounding whitespace, an optional sign, decimal digits.\<close>

definition py_int :: "string \<Rightarrow> pyerr + int" where
  "py_int s =
     (let t = rev (dropWhile is_space (rev (dropWhile is_space s)));
          (neg, ds) = (case t of
                         c # cs \<Rightarrow> if c = CHR ''-'' then (True, cs)
                                   else if c = CHR ''+'' then (False, cs) else (False, t)
                       | [] \<Rightarrow> (False, t))
      in case digit_groups ds None of
           None \<Rightarrow> Inl ValueError
         | Some n \<Rightarrow> Inr (if neg then - int n else int n))"


section \<open>Field-level diff of a matched pair\<close>

text \<open>
  One entry of the \<^verbatim>\<open>tests\<close> table of \<^verbatim>\<open>_layer_diff\<close>. Only the \<^verbatim>\<open>fields\<close> entry has
  the key \<^verbatim>\<open>"array"\<close> (and the two lambdas \<^verbatim>\<open>hash\<close> and \<^verbatim>\<open>unhash\<close>).
\<close>

record layer_test =
  layer_prop_name :: string
  change_id :: int
  array :: "bool option"

text \<open>
  \<^verbatim>\<open>list(s)\<close> of a Python set lists its elements in an order the language leaves open. The
  order is a parameter of the model: a function that rearranges the elements.
\<close>

type_synonym set_order = "string list \<Rightarrow> string list"

text \<open>\<^verbatim>\<open>list(set(xs).difference(set(ys)))\<close>\<close>

definition set_difference_list :: "set_order \<Rightarrow> string list \<Rightarrow> string list \<Rightarrow> string list" where
  "set_difference_list ord xs ys = ord (remdups (filter (\<lambda>h. h \<notin> set ys) xs))"

subsection \<open>\<^verbatim>\<open>_layer_diff\<close> of \<^verbatim>\<open>mapping/_mapping3.py\<close>\<close>

text \<open>\<^verbatim>\<open>eq = lambda a, b, k: b[k] == a[k] if k in a and k in b else False\<close>\<close>

definition eq_mapping3 :: "pyval \<Rightarrow> pyval \<Rightarrow> string \<Rightarrow> pyerr + bool" where
  "eq_mapping3 a b k =
     bind_res (and_res (py_in k a) (py_in k b)) (\<lambda>both.
       if both
       then bind_res (py_getitem b k) (\<lambda>bv.
            bind_res (py_getitem a k) (\<lambda>av. Inr (py_eq bv av)))
       else Inr False)"

text \<open>\<^verbatim>\<open>{"type": type, "was": a[k] if k in a else None, "now": b[k] if k in b else None}\<close>\<close>

definition express_diff_mapping3 :: "pyval \<Rightarrow> pyval \<Rightarrow> string \<Rightarrow> int \<Rightarrow> pyerr + pyval" where
  "express_diff_mapping3 a b k ty =
     bind_res (py_in k a) (\<lambda>ina.
     bind_res (if ina then py_getitem a k else Inr PNone) (\<lambda>was.
     bind_res (py_in k b) (\<lambda>inb.
     bind_res (if inb then py_getitem b k else Inr PNone) (\<lambda>now.
       Inr (PDict [(''type'', PInt ty), (''was'', was), (''now'', now)])))))"

definition layer_tests_mapping3 :: "layer_test list" where
  "layer_tests_mapping3 =
     [\<lparr>layer_prop_name = ''id'', change_id = 401, array = None\<rparr>,
      \<lparr>layer_prop_name = ''name'', change_id = 402, array = None\<rparr>,
      \<lparr>layer_prop_name = ''visible'', change_id = 404, array = None\<rparr>,
      \<lparr>layer_prop_name = ''workspacePath'', change_id = 403, array = None\<rparr>,
      \<lparr>layer_prop_name = ''datasetName'', change_id = 403, array = None\<rparr>,
      \<lparr>layer_prop_name = ''database'', change_id = 403, array = None\<rparr>,
      \<lparr>layer_prop_name = ''server'', change_id = 403, array = None\<rparr>,
      \<lparr>layer_prop_name = ''service'', change_id = 403, array = None\<rparr>,
      \<lparr>layer_prop_name = ''definitionQuery'', change_id = 406, array = None\<rparr>,
      \<lparr>layer_prop_name = ''fields'', change_id = 405, array = Some True\<rparr>]"

text \<open>\<^verbatim>\<open>"hash": lambda _dict: "%s|%s|%s" % (_dict['index'], _dict['name'], _dict['visible'])\<close>\<close>

definition hash_mapping3 :: "pyval \<Rightarrow> pyerr + string" where
  "hash_mapping3 d =
     bind_res (py_getitem d ''index'') (\<lambda>i.
     bind_res (py_getitem d ''name'') (\<lambda>n.
     bind_res (py_getitem d ''visible'') (\<lambda>v.
       Inr (py_str i @ ''|'' @ py_str n @ ''|'' @ py_str v))))"

text \<open>\<^verbatim>\<open>"unhash": lambda hash: hash.split("|")[0]\<close>\<close>

definition unhash_mapping3 :: "string \<Rightarrow> string" where
  "unhash_mapping3 h = takeWhile (\<lambda>c. c \<noteq> CHR ''|'') h"

text \<open>\<^verbatim>\<open>[x for x in arr if x['index'] == int(index)][0]\<close>\<close>

definition inflate_mapping3 :: "pyval \<Rightarrow> string \<Rightarrow> pyerr + pyval" where
  "inflate_mapping3 arr index =
     bind_res (py_iter arr) (\<lambda>xs.
     bind_res (filter_res (\<lambda>x. bind_res (py_getitem x ''index'') (\<lambda>xi.
                                bind_res (py_int index) (\<lambda>n. Inr (py_eq xi (PInt n))))) xs) (\<lambda>ys.
       case ys of [] \<Rightarrow> Inl IndexError | y # _ \<Rightarrow> Inr y))"

text \<open>
  The body of \<^verbatim>\<open>for test in tests\<close>: the array branch for \<^verbatim>\<open>fields\<close>, the scalar branch,
  and the \<^verbatim>\<open>else\<close> branch taken whenever the key is missing from \<open>a\<close> or from \<open>b\<close>.
\<close>

definition layer_diff_step_mapping3 ::
  "set_order \<Rightarrow> pyval \<Rightarrow> pyval \<Rightarrow> pyval list \<Rightarrow> layer_test \<Rightarrow> pyerr + pyval list" where
  "layer_diff_step_mapping3 ord a b diff test =
     (let k = layer_prop_name test;
          v = change_id test;
          is_array = (case array test of Some c \<Rightarrow> c = True | None \<Rightarrow> False)
      in bind_res (and_res (py_in k a) (py_in k b)) (\<lambda>both.
         if both then
           if is_array = True then
             bind_res (py_getitem a k) (\<lambda>ak.
             bind_res (py_iter ak) (\<lambda>as.
             bind_res (map_res hash_mapping3 as) (\<lambda>hashed_a.
             bind_res (py_getitem b k) (\<lambda>bk.
             bind_res (py_iter bk) (\<lambda>bs.
             bind_res (map_res hash_mapping3 bs) (\<lambda>hashed_b.
               if set hashed_a \<noteq> set hashed_b then
                 let was = set_difference_list ord hashed_a hashed_b;
                     now = set_difference_list ord hashed_b hashed_a
                 in bind_res (map_res (inflate_mapping3 ak) (map unhash_mapping3 was)) (\<lambda>was'.
                    bind_res (map_res (inflate_mapping3 bk) (map unhash_mapping3 now)) (\<lambda>now'.
                      Inr (diff @ [PDict [(''type'', PInt v), (''was'', PList was'),
                                          (''now'', PList now')]])))
               else Inr diff))))))
           else
             bind_res (eq_mapping3 a b k) (\<lambda>same.
               if \<not> same
               then bind_res (express_diff_mapping3 a b k v) (\<lambda>e. Inr (diff @ [e]))
               else Inr diff)
         else bind_res (express_diff_mapping3 a b k v) (\<lambda>e. Inr (diff @ [e]))))"

fun layer_diff_loop_mapping3 ::
  "set_order \<Rightarrow> pyval \<Rightarrow> pyval \<Rightarrow> layer_test list \<Rightarrow> pyval list \<Rightarrow> pyerr + pyval list" where
  "layer_diff_loop_mapping3 ord a b [] diff = Inr diff"
| "layer_diff_loop_mapping3 ord a b (test # tests) diff =
     bind_res (layer_diff_step_mapping3 ord a b diff test) (layer_diff_loop_mapping3 ord a b tests)"

definition layer_diff_mapping3 :: "set_order \<Rightarrow> pyval \<Rightarrow> pyval \<Rightarrow> pyerr + pyval list" where
  "layer_diff_mapping3 ord a b = layer_diff_loop_mapping3 ord a b layer_tests_mapping3 []"

subsection \<open>\<^verbatim>\<open>_layer_diff\<close> of \<^verbatim>\<open>mp/_mp.py\<close>\<close>

text \<open>\<^verbatim>\<open>eq = lambda a, b, k: b[k] == a[k] if k in a and k in b else False\<close>\<close>

definition eq_mp :: "pyval \<Rightarrow> pyval \<Rightarrow> string \<Rightarrow> pyerr + bool" where
  "eq_mp a b k =
     bind_res (and_res (py_in k a) (py_in k b)) (\<lambda>both.
       if both
       then bind_res (py_getitem b k) (\<lambda>bv.
            bind_res (py_getitem a k) (\<lambda>av. Inr (py_eq bv av)))
       else Inr False)"

text \<open>\<^verbatim>\<open>{"type": type, "was": a[k] if k in a else None, "now": b[k] if k in b else None}\<close>\<close>

definition express_diff_mp :: "pyval \<Rightarrow> pyval \<Rightarrow> string \<Rightarrow> int \<Rightarrow> pyerr + pyval" where
  "express_diff_mp a b k ty =
     bind_res (py_in k a) (\<lambda>ina.
     bind_res (if ina then py_getitem a k else Inr PNone) (\<lambda>was.
     bind_res (py_in k b) (\<lambda>inb.
     bind_res (if inb then py_getitem b k else Inr PNone) (\<lambda>now.
       Inr (PDict [(''type'', PInt ty), (''was'', was), (''now'', now)])))))"

definition layer_tests_mp :: "layer_test list" where
  "layer_tests_mp =
     [\<lparr>layer_prop_name = ''id'', change_id = 401, array = None\<rparr>,
      \<lparr>layer_prop_name = ''name'', change_id = 402, array = None\<rparr>,
      \<lparr>layer_prop_name = ''visible'', change_id = 404, array = None\<rparr>,
      \<lparr>layer_prop_name = ''workspacePath'', change_id = 403, array = None\<rparr>,
      \<lparr>layer_prop_name = ''datasetName'', change_id = 403, array = None\<rparr>,
      \<lparr>layer_prop_name = ''database'', change_id = 403, array = None\<rparr>,
      \<lparr>layer_prop_name = ''server'', change_id = 403, array = None\<rparr>,
      \<lparr>layer_prop_name = ''service'', change_id = 403, array = None\<rparr>,
      \<lparr>layer_prop_name = ''definitionQuery'', change_id = 406, array = None\<rparr>,
      \<lparr>layer_prop_name = ''fields'', change_id = 405, array = Some True\<rparr>]"

text \<open>\<^verbatim>\<open>"hash": lambda _dict: "%s|%s|%s" % (_dict['index'], _dict['name'], _dict['visible'])\<close>\<close>

definition hash_mp :: "pyval \<Rightarrow> pyerr + string" where
  "hash_mp d =
     bind_res (py_getitem d ''index'') (\<lambda>i.
     bind_res (py_getitem d ''name'') (\<lambda>n.
     bind_res (py_getitem d ''visible'') (\<lambda>v.
       Inr (py_str i @ ''|'' @ py_str n @ ''|'' @ py_str v))))"

text \<open>\<^verbatim>\<open>"unhash": lambda hash: hash.split("|")[0]\<close>\<close>

definition unhash_mp :: "string \<Rightarrow> string" where
  "unhash_mp h = takeWhile (\<lambda>c. c \<noteq> CHR ''|'') h"

text \<open>\<^verbatim>\<open>[x for x in arr if x['index'] == int(index)][0]\<close>\<close>

definition inflate_mp :: "pyval \<Rightarrow> string \<Rightarrow> pyerr + pyval" where
  "inflate_mp arr index =
     bind_res (py_iter arr) (\<lambda>xs.
     bind_res (filter_res (\<lambda>x. bind_res (py_getitem x ''index'') (\<lambda>xi.
                                bind_res (py_int index) (\<lambda>n. Inr (py_eq xi (PInt n))))) xs) (\<lambda>ys.
       case ys of [] \<Rightarrow> Inl IndexError | y # _ \<Rightarrow> Inr y))"

text \<open>
  The body of \<^verbatim>\<open>for test in tests\<close>: the array branch for \<^verbatim>\<open>fields\<close>, the scalar branch,
  and the \<^verbatim>\<open>else\<close> branch taken whenever the key is missing from \<open>a\<close> or from \<open>b\<close>.
\<close>

definition layer_diff_step_mp ::
  "set_order \<Rightarrow> pyval \<Rightarrow> pyval \<Rightarrow> pyval list \<Rightarrow> layer_test \<Rightarrow> pyerr + pyval list" where
  "layer_diff_step_mp ord a b diff test =
     (let k = layer_prop_name test;
          v = change_id test;
          is_array = (case array test of Some c \<Rightarrow> c = True | None \<Rightarrow> False)
      in bind_res (and_res (py_in k a) (py_in k b)) (\<lambda>both.
         if both then
           if is_array = True then
             bind_res (py_getitem a k) (\<lambda>ak.
             bind_res (py_iter ak) (\<lambda>as.
             bind_res (map_res hash_mp as) (\<lambda>hashed_a.
             bind_res (py_getitem b k) (\<lambda>bk.
             bind_res (py_iter bk) (\<lambda>bs.
             bind_res (map_res hash_mp bs) (\<lambda>hashed_b.
               if set hashed_a \<noteq> set hashed_b then
                 let was = set_difference_list ord hashed_a hashed_b;
                     now = set_difference_list ord hashed_b hashed_a
                 in bind_res (map_res (inflate_mp ak) (map unhash_mp was)) (\<lambda>was'.
                    bind_res (map_res (inflate_mp bk) (map unhash_mp now)) (\<lambda>now'.
                      Inr (diff @ [PDict [(''type'', PInt v), (''was'', PList was'),
                                          (''now'', PList now')]])))
               else Inr diff))))))
           else
             bind_res (eq_mp a b k) (\<lambda>same.
               if \<not> same
               then bind_res (express_diff_mp a b k v) (\<lambda>e. Inr (diff @ [e]))
               else Inr diff)
         else bind_res (express_diff_mp a b k v) (\<lambda>e. Inr (diff @ [e]))))"

fun layer_diff_loop_mp ::
  "set_order \<Rightarrow> pyval \<Rightarrow> pyval \<Rightarrow> layer_test list \<Rightarrow> pyval list \<Rightarrow> pyerr + pyval list" where
  "layer_diff_loop_mp ord a b [] diff = Inr diff"
| "layer_diff_loop_mp ord a b (test # tests) diff =
     bind_res (layer_diff_step_mp ord a b diff test) (layer_diff_loop_mp ord a b tests)"

definition layer_diff_mp :: "set_order \<Rightarrow> pyval \<Rightarrow> pyval \<Rightarrow> pyerr + pyval list" where
  "layer_diff_mp ord a b = layer_diff_loop_mp ord a b layer_tests_mp []"


section \<open>Layer correlation\<close>

text \<open>
  The locals of \<^verbatim>\<open>compare_layers\<close> once its lists exist. The dictionaries
  \<^verbatim>\<open>resolved_a\<close> and \<^verbatim>\<open>resolved_b\<close> only ever map a key to \<^verbatim>\<open>True\<close>, so each is the list
  of its keys. \<open>b_layer\<close> is the dictionary of the current iteration, which the loop
  mutates (\<^verbatim>\<open>b_layer['diff'] = ...\<close>); \<^verbatim>\<open>updated\<close> holds references to it, and \<open>aliases\<close>
  counts the trailing entries of \<open>updated\<close> that are this very object, so that an
  assignment to \<^verbatim>\<open>b_layer['diff']\<close> shows in them too. \<open>matched\<close> is the variable
  \<^verbatim>\<open>match\<close>.
\<close>

record match_state =
  added :: "pyval list"
  updated :: "pyval list"
  removed :: "pyval list"
  resolved_a :: "pyval list"
  resolved_b :: "pyval list"
  b_layer :: pyval
  aliases :: nat
  matched :: pyval

text \<open>\<^verbatim>\<open>key in d\<close> and \<^verbatim>\<open>d[key] = True\<close> for such a dictionary: the key is hashed first.\<close>

definition dict_has :: "pyval list \<Rightarrow> pyval \<Rightarrow> pyerr + bool" where
  "dict_has keys k = (if hashable k then Inr (list_ex (py_eq k) keys) else Inl TypeError)"

definition dict_mark :: "pyval list \<Rightarrow> pyval \<Rightarrow> pyerr + pyval list" where
  "dict_mark keys k =
     (if hashable k then Inr (if list_ex (py_eq k) keys then keys else keys @ [k])
      else Inl TypeError)"

text \<open>\<^verbatim>\<open>is_resolved_a = lambda x: x['name'] in resolved_a\<close>, and the same for \<open>b\<close>.\<close>

definition is_resolved_a :: "match_state \<Rightarrow> pyval \<Rightarrow> pyerr + bool" where
  "is_resolved_a st x = bind_res (py_getitem x ''name'') (dict_has (resolved_a st))"

definition is_resolved_b :: "match_state \<Rightarrow> pyval \<Rightarrow> pyerr + bool" where
  "is_resolved_b st x = bind_res (py_getitem x ''name'') (dict_has (resolved_b st))"

type_synonym eq_fun = "pyval \<Rightarrow> pyval \<Rightarrow> string \<Rightarrow> pyerr + bool"

definition same_id :: "eq_fun \<Rightarrow> pyval \<Rightarrow> pyval \<Rightarrow> pyerr + bool" where
  "same_id eqf a b = eqf a b ''id''"

definition same_name :: "eq_fun \<Rightarrow> pyval \<Rightarrow> pyval \<Rightarrow> pyerr + bool" where
  "same_name eqf a b = eqf a b ''name''"

definition same_datasource :: "eq_fun \<Rightarrow> pyval \<Rightarrow> pyval \<Rightarrow> pyerr + bool" where
  "same_datasource eqf a b = eqf a b ''datasetName''"

text \<open>
  One entry of the correlation \<^verbatim>\<open>tests\<close>: the lambda \<^verbatim>\<open>fn\<close>, which reads the resolved
  dictionaries as they are when it is called, and the optional key \<^verbatim>\<open>ignore\<close>.
\<close>

record corr_test =
  fn :: "match_state \<Rightarrow> pyval \<Rightarrow> pyval \<Rightarrow> pyerr + pyval"
  ignore :: "bool option"

definition unresolved :: "match_state \<Rightarrow> pyval \<Rightarrow> pyval \<Rightarrow> pyerr + bool" where
  "unresolved st a b = and_res (not_res (is_resolved_a st a)) (not_res (is_resolved_b st b))"

definition b_if :: "pyerr + bool \<Rightarrow> pyval \<Rightarrow> pyerr + pyval" where
  "b_if c b = bind_res c (\<lambda>holds. Inr (if holds then b else PNone))"

definition corr_tests :: "eq_fun \<Rightarrow> corr_test list" where
  "corr_tests eqf =
     [\<lparr>fn = (\<lambda>st a b. b_if (and_res (same_id eqf a b)
                            (and_res (same_name eqf a b) (same_datasource eqf a b))) b),
       ignore = Some True\<rparr>,
      \<lparr>fn = (\<lambda>st a b. b_if (and_res (same_id eqf a b)
                            (and_res (same_name eqf a b) (unresolved st a b))) b),
       ignore = None\<rparr>,
      \<lparr>fn = (\<lambda>st a b. b_if (and_res (same_id eqf a b)
                            (and_res (same_datasource eqf a b) (unresolved st a b))) b),
       ignore = None\<rparr>,
      \<lparr>fn = (\<lambda>st a b. b_if (and_res (same_id eqf a b) (unresolved st a b)) b),
       ignore = None\<rparr>,
      \<lparr>fn = (\<lambda>st a b. b_if (and_res (same_name eqf a b)
                            (and_res (same_datasource eqf a b) (unresolved st a b))) b),
       ignore = None\<rparr>,
      \<lparr>fn = (\<lambda>st a b. b_if (and_res (same_name eqf a b) (unresolved st a b)) b),
       ignore = None\<rparr>]"

type_synonym diff_fun = "pyval \<Rightarrow> pyval \<Rightarrow> pyerr + pyval list"

text \<open>
  The body of \<^verbatim>\<open>if match is not None\<close>. The result says whether an exception left the
  \<^verbatim>\<open>try\<close> block (with the state as it was at that moment) and, if none did, whether
  \<^verbatim>\<open>break\<close> was reached.
\<close>

definition on_match ::
  "diff_fun \<Rightarrow> bool \<Rightarrow> pyval \<Rightarrow> match_state \<Rightarrow> match_state \<times> (pyerr + bool)" where
  "on_match ldiff ign a_layer st =
     (case bind_res (py_getitem a_layer ''name'') (dict_mark (resolved_a st)) of
        Inl e \<Rightarrow> (st, Inl e)
      | Inr ra \<Rightarrow>
          let st1 = st\<lparr>resolved_a := ra\<rparr> in
          (case bind_res (py_getitem (b_layer st1) ''name'') (dict_mark (resolved_b st1)) of
             Inl e \<Rightarrow> (st1, Inl e)
           | Inr rb \<Rightarrow>
               let st2 = st1\<lparr>resolved_b := rb\<rparr> in
               (case bind_res (ldiff a_layer (b_layer st2))
                       (\<lambda>d. bind_res (py_setitem (b_layer st2) ''diff'' (PList d))
                          (\<lambda>b'. Inr (d, b'))) of
                  Inl e \<Rightarrow> (st2, Inl e)
                | Inr (d, b') \<Rightarrow>
                    let st3 = st2\<lparr>b_layer := b',
                                  updated := take (length (updated st2) - aliases st2) (updated st2)
                                             @ replicate (aliases st2) b'\<rparr>
                    in if \<not> ign \<or> length d > 0
                       then (st3\<lparr>updated := updated st3 @ [b'], aliases := Suc (aliases st3)\<rparr>,
                             Inr True)
                       else (st3, Inr False))))"

text \<open>\<^verbatim>\<open>for index, test in enumerate(tests)\<close> for one pair of layers.\<close>

fun tests_loop ::
  "diff_fun \<Rightarrow> corr_test list \<Rightarrow> pyval \<Rightarrow> match_state \<Rightarrow> match_state \<times> pyerr option" where
  "tests_loop ldiff [] a_layer st = (st, None)"
| "tests_loop ldiff (test # tests) a_layer st =
     (let ign = (case ignore test of Some c \<Rightarrow> c = True | None \<Rightarrow> False) in
      case fn test st a_layer (b_layer st) of
        Inl e \<Rightarrow> (st, Some e)
      | Inr m \<Rightarrow>
          let st' = st\<lparr>matched := m\<rparr> in
          if m \<noteq> PNone
          then (case on_match ldiff ign a_layer st' of
                  (st'', Inl e) \<Rightarrow> (st'', Some e)
                | (st'', Inr brk) \<Rightarrow>
                    if brk then (st'', None) else tests_loop ldiff tests a_layer st'')
          else tests_loop ldiff tests a_layer st')"

text \<open>\<^verbatim>\<open>for a_layer in a_layers\<close>: the \<^verbatim>\<open>break\<close> above leaves the inner loop only.\<close>

fun a_loop ::
  "diff_fun \<Rightarrow> corr_test list \<Rightarrow> pyval list \<Rightarrow> match_state \<Rightarrow> match_state \<times> pyerr option" where
  "a_loop ldiff tests [] st = (st, None)"
| "a_loop ldiff tests (a_layer # a_layers) st =
     (case tests_loop ldiff tests a_layer st of
        (st', Some e) \<Rightarrow> (st', Some e)
      | (st', None) \<Rightarrow> a_loop ldiff tests a_layers st')"

text \<open>The body of \<^verbatim>\<open>for b_layer in b_layers\<close>, with the \<^verbatim>\<open># New layer\<close> test at its end.\<close>

definition process_b ::
  "diff_fun \<Rightarrow> corr_test list \<Rightarrow> pyval list \<Rightarrow> pyval \<Rightarrow> match_state
   \<Rightarrow> match_state \<times> pyerr option" where
  "process_b ldiff tests a_layers b st =
     (case a_loop ldiff tests a_layers (st\<lparr>b_layer := b, aliases := 0, matched := PNone\<rparr>) of
        (st1, Some e) \<Rightarrow> (st1, Some e)
      | (st1, None) \<Rightarrow>
          if matched st1 = PNone
          then (case is_resolved_b st1 (b_layer st1) of
                  Inl e \<Rightarrow> (st1, Some e)
                | Inr r \<Rightarrow>
                    if \<not> r
                    then (case bind_res (py_getitem (b_layer st1) ''name'')
                                 (dict_mark (resolved_b st1)) of
                            Inl e \<Rightarrow> (st1, Some e)
                          | Inr rb \<Rightarrow>
                              (st1\<lparr>resolved_b := rb, added := added st1 @ [b_layer st1]\<rparr>, None))
                    else (st1, None))
          else (st1, None))"

fun b_loop ::
  "diff_fun \<Rightarrow> corr_test list \<Rightarrow> pyval list \<Rightarrow> pyval list \<Rightarrow> match_state
   \<Rightarrow> match_state \<times> pyerr option" where
  "b_loop ldiff tests a_layers [] st = (st, None)"
| "b_loop ldiff tests a_layers (b # b_layers) st =
     (case process_b ldiff tests a_layers b st of
        (st', Some e) \<Rightarrow> (st', Some e)
      | (st', None) \<Rightarrow> b_loop ldiff tests a_layers b_layers st')"

text \<open>\<^verbatim>\<open># Removed layers\<close>\<close>

fun removed_loop :: "pyval list \<Rightarrow> match_state \<Rightarrow> match_state \<times> pyerr option" where
  "removed_loop [] st = (st, None)"
| "removed_loop (a_layer # a_layers) st =
     (case is_resolved_a st a_layer of
        Inl e \<Rightarrow> (st, Some e)
      | Inr r \<Rightarrow>
          if \<not> r
          then (case bind_res (py_getitem a_layer ''name'') (dict_mark (resolved_a st)) of
                  Inl e \<Rightarrow> (st, Some e)
                | Inr ra \<Rightarrow>
                    removed_loop a_layers (st\<lparr>resolved_a := ra, removed := removed st @ [a_layer]\<rparr>))
          else removed_loop a_layers st)"

definition init_state :: match_state where
  "init_state = \<lparr>added = [], updated = [], removed = [], resolved_a = [], resolved_b = [],
                 b_layer = PNone, aliases = 0, matched = PNone\<rparr>"

text \<open>
  The correlation from \<^verbatim>\<open>added = []\<close> to the end of the \<^verbatim>\<open>try\<close> block. An exception at any
  point ends it, and the lists are returned as they are then.
\<close>

definition match_phase ::
  "diff_fun \<Rightarrow> eq_fun \<Rightarrow> pyval list \<Rightarrow> pyval list \<Rightarrow> match_state \<times> pyerr option" where
  "match_phase ldiff eqf a_layers b_layers = b_loop ldiff (corr_tests eqf) a_layers b_layers init_state"

definition match_layers ::
  "diff_fun \<Rightarrow> eq_fun \<Rightarrow> pyval list \<Rightarrow> pyval list \<Rightarrow> match_state \<times> pyerr option" where
  "match_layers ldiff eqf a_layers b_layers =
     (case match_phase ldiff eqf a_layers b_layers of
        (st, Some e) \<Rightarrow> (st, Some e)
      | (st, None) \<Rightarrow> removed_loop a_layers st)"

text \<open>\<^verbatim>\<open>return {'added': added, 'updated': updated, 'removed': removed}\<close>\<close>

definition layers_result :: "match_state \<Rightarrow> pyval" where
  "layers_result st =
     PDict [(''added'', PList (added st)), (''updated'', PList (updated st)),
            (''removed'', PList (removed st))]"

text \<open>\<^verbatim>\<open>[item for sublist in x for item in sublist if item is not None]\<close>\<close>

definition flatten :: "pyval \<Rightarrow> pyerr + pyval list" where
  "flatten x =
     bind_res (py_iter x) (\<lambda>sublists.
     bind_res (map_res py_iter sublists) (\<lambda>items.
       Inr (filter (\<lambda>item. item \<noteq> PNone) (concat items))))"


section \<open>Projects and \<^verbatim>\<open>compare\<close>\<close>

text \<open>
  What \<^verbatim>\<open>compare\<close> reads of a project through arcpy: for each map of
  \<^verbatim>\<open>listMaps()\<close>, the spatial reference of the default camera's extent, and the details
  that \<^verbatim>\<open>_get_layer_details\<close> and \<^verbatim>\<open>_get_table_details\<close> return for its layers and
  tables (\<open>PNone\<close> for a group layer that is not a network analyst layer, a dictionary
  otherwise; for \<^verbatim>\<open>mp/_mp.py\<close> after the ArcObjects enrichment).
\<close>

record spatial_ref =
  factoryCode :: int
  sr_type :: string
  sr_name :: string

record proj_map =
  spatialReference :: spatial_ref
  layer_details :: "pyval list"
  table_details :: "pyval list"

type_synonym project = "proj_map list"

text \<open>The three comparisons of one pair of maps, in the order of the source.\<close>

definition data_frame_entries :: "proj_map \<Rightarrow> proj_map \<Rightarrow> pyval list" where
  "data_frame_entries a b =
     (let sa = spatialReference a; sb = spatialReference b in
      (if factoryCode sa \<noteq> factoryCode sb
       then [PDict [(''type'', PInt 302), (''was'', PInt (factoryCode sa)),
                    (''now'', PInt (factoryCode sb))]] else [])
      @ (if sr_type sa \<noteq> sr_type sb
         then [PDict [(''type'', PInt 304), (''was'', PStr (sr_type sa)),
                      (''now'', PStr (sr_type sb))]] else [])
      @ (if sr_name sa \<noteq> sr_name sb
         then [PDict [(''type'', PInt 303), (''was'', PStr (sr_name sa)),
                      (''now'', PStr (sr_name sb))]] else []))"

text \<open>
  \<^verbatim>\<open>for index, a in enumerate(map_a_maps)\<close>: \<^verbatim>\<open>map_b_maps[index]\<close> raises
  \<^verbatim>\<open>IndexError\<close> past the end of \<open>b\<close>; the handler logs it and \<^verbatim>\<open>diff\<close> is returned as
  it is.
\<close>

fun data_frames_loop :: "nat \<Rightarrow> proj_map list \<Rightarrow> proj_map list \<Rightarrow> pyval list \<Rightarrow> pyval list" where
  "data_frames_loop index [] map_b_maps diff = diff"
| "data_frames_loop index (a # map_a_maps) map_b_maps diff =
     (if index < length map_b_maps
      then data_frames_loop (Suc index) map_a_maps map_b_maps
             (diff @ data_frame_entries a (map_b_maps ! index))
      else diff)"

text \<open>\<^verbatim>\<open>compare_data_frames\<close> of \<^verbatim>\<open>mapping/_mapping3.py\<close>.\<close>

definition compare_data_frames_mapping3 :: "project \<Rightarrow> project \<Rightarrow> pyval list" where
  "compare_data_frames_mapping3 map_a map_b =
     (let map_a_maps_len = length map_a; map_b_maps_len = length map_b;
          diff = (if map_b_maps_len = 0 \<or> map_a_maps_len \<noteq> map_b_maps_len
                  then [PDict [(''type'', PInt 301), (''was'', PInt (int map_a_maps_len)),
                               (''now'', PInt (int map_b_maps_len))]]
                  else [])
      in data_frames_loop 0 map_a map_b diff)"

text \<open>
  \<^verbatim>\<open>compare_data_frames\<close> of \<^verbatim>\<open>mp/_mp.py\<close>: the constant is named
  \<^verbatim>\<open>data_frame_count_changed\<close> there, so building the entry \<^verbatim>\<open>map_count_changed\<close> raises
  \<^verbatim>\<open>NameError\<close>, which the handler logs; \<^verbatim>\<open>diff\<close> is still empty then.
\<close>

definition compare_data_frames_mp :: "project \<Rightarrow> project \<Rightarrow> pyval list" where
  "compare_data_frames_mp map_a map_b =
     (let map_a_maps_len = length map_a; map_b_maps_len = length map_b
      in if map_b_maps_len = 0 \<or> map_a_maps_len \<noteq> map_b_maps_len
         then []
         else data_frames_loop 0 map_a map_b [])"

text \<open>\<^verbatim>\<open>x[i]\<close> for an integer \<open>i \<ge> 0\<close>.\<close>

fun py_getindex :: "pyval \<Rightarrow> nat \<Rightarrow> pyerr + pyval" where
  "py_getindex (PList xs) i = (if i < length xs then Inr (xs ! i) else Inl IndexError)"
| "py_getindex (PStr s) i = (if i < length s then Inr (PStr [s ! i]) else Inl IndexError)"
| "py_getindex (PDict d) i = Inl KeyError"
| "py_getindex _ i = Inl TypeError"

text \<open>
  \<^verbatim>\<open>list_document_data_sources\<close> of \<^verbatim>\<open>mapping/_mapping3.py\<close>: a list with one dictionary
  per map.
\<close>

definition list_document_data_sources_mapping3 :: "project \<Rightarrow> pyval" where
  "list_document_data_sources_mapping3 proj =
     PList (map (\<lambda>mp. PDict [(''layers'', PList (layer_details mp)),
                              (''tableViews'', PList (table_details mp))]) proj)"

text \<open>
  \<^verbatim>\<open>list_document_data_sources\<close> of \<^verbatim>\<open>mp/_mp.py\<close>: one dictionary, with a list of layer
  lists (one per data frame).
\<close>

definition list_document_data_sources_mp :: "project \<Rightarrow> pyval" where
  "list_document_data_sources_mp proj =
     PDict [(''layers'', PList (map (\<lambda>df. PList (layer_details df)) proj)),
            (''tableViews'', PList (map (\<lambda>df. PList (table_details df)) proj))]"

text \<open>
  The candidate pool of \<^verbatim>\<open>mapping/_mapping3.py\<close>:
  \<^verbatim>\<open>[item for sublist in a[0]['layers'] for item in sublist if item is not None]\<close>.
\<close>

definition layer_pool_mapping3 :: "project \<Rightarrow> pyerr + pyval list" where
  "layer_pool_mapping3 proj =
     bind_res (py_getindex (list_document_data_sources_mapping3 proj) 0) (\<lambda>first.
     bind_res (py_getitem first ''layers'') flatten)"

text \<open>
  The candidate pool of \<^verbatim>\<open>mp/_mp.py\<close>:
  \<^verbatim>\<open>[item for sublist in a['layers'] for item in sublist if item is not None]\<close>.
\<close>

definition layer_pool_mp :: "project \<Rightarrow> pyerr + pyval list" where
  "layer_pool_mp proj =
     bind_res (py_getitem (list_document_data_sources_mp proj) ''layers'') flatten"

text \<open>
  \<^verbatim>\<open>compare_layers\<close>: an exception before \<^verbatim>\<open>added = []\<close> is logged by the handler, and the
  \<^verbatim>\<open>return\<close> of the \<^verbatim>\<open>finally\<close> block then reads the unbound local \<^verbatim>\<open>added\<close>, which
  raises \<^verbatim>\<open>UnboundLocalError\<close> out of \<^verbatim>\<open>compare_layers\<close>. An exception after that point
  is logged and the lists are returned as they are.
\<close>

definition compare_layers_mapping3 :: "set_order \<Rightarrow> project \<Rightarrow> project \<Rightarrow> pyerr + pyval" where
  "compare_layers_mapping3 ord map_a map_b =
     (case bind_res (layer_pool_mapping3 map_a) (\<lambda>a_layers.
           bind_res (layer_pool_mapping3 map_b) (\<lambda>b_layers. Inr (a_layers, b_layers))) of
        Inl e \<Rightarrow> Inl UnboundLocalError
      | Inr (a_layers, b_layers) \<Rightarrow>
          Inr (layers_result
                 (fst (match_layers (layer_diff_mapping3 ord) eq_mapping3 a_layers b_layers))))"

definition compare_layers_mp :: "set_order \<Rightarrow> project \<Rightarrow> project \<Rightarrow> pyerr + pyval" where
  "compare_layers_mp ord map_a map_b =
     (case bind_res (layer_pool_mp map_a) (\<lambda>a_layers.
           bind_res (layer_pool_mp map_b) (\<lambda>b_layers. Inr (a_layers, b_layers))) of
        Inl e \<Rightarrow> Inl UnboundLocalError
      | Inr (a_layers, b_layers) \<Rightarrow>
          Inr (layers_result (fst (match_layers (layer_diff_mp ord) eq_mp a_layers b_layers))))"

text \<open>\<^verbatim>\<open>return {'dataFrames': compare_data_frames(), 'layers': compare_layers()}\<close>\<close>

definition compare_mapping3 :: "set_order \<Rightarrow> project \<Rightarrow> project \<Rightarrow> pyerr + pyval" where
  "compare_mapping3 ord map_a map_b =
     (let data_frames = compare_data_frames_mapping3 map_a map_b in
      bind_res (compare_layers_mapping3 ord map_a map_b) (\<lambda>layers.
        Inr (PDict [(''dataFrames'', PList data_frames), (''layers'', layers)])))"

definition compare_mp :: "set_order \<Rightarrow> project \<Rightarrow> project \<Rightarrow> pyerr + pyval" where
  "compare_mp ord map_a map_b =
     (let data_frames = compare_data_frames_mp map_a map_b in
      bind_res (compare_layers_mp ord map_a map_b) (\<lambda>layers.
        Inr (PDict [(''dataFrames'', PList data_frames), (''layers'', layers)])))"


section \<open>Data-source template matcher\<close>

text \<open>
  The values \<^verbatim>\<open>freeze\<close> builds: scalars, tuples and frozensets. A frozenset is the list of
  its elements; order and repetition do not count when two of them are compared.
\<close>

datatype frozen =
    FNone
  | FBool bool
  | FInt int
  | FStr string
  | FTuple "frozen list"
  | FSet "frozen list"

fun fr_eq :: "frozen \<Rightarrow> frozen \<Rightarrow> bool" where
  "fr_eq FNone FNone = True"
| "fr_eq (FBool a) (FBool b) = (a = b)"
| "fr_eq (FInt a) (FInt b) = (a = b)"
| "fr_eq (FBool a) (FInt b) = ((if a then 1 else 0) = b)"
| "fr_eq (FInt a) (FBool b) = (a = (if b then 1 else 0))"
| "fr_eq (FStr a) (FStr b) = (a = b)"
| "fr_eq (FTuple xs) (FTuple ys) = list_all2 fr_eq xs ys"
| "fr_eq (FSet xs) (FSet ys) =
     (list_all (\<lambda>x. list_ex (\<lambda>y. fr_eq x y) ys) xs \<and>
      list_all (\<lambda>y. list_ex (\<lambda>x. fr_eq x y) xs) ys)"
| "fr_eq _ _ = False"

text \<open>
  \<^verbatim>\<open>freeze\<close>: a dictionary becomes the frozenset of its \<^verbatim>\<open>(key, freeze(value))\<close> tuples, a
  list the tuple of its frozen elements, anything else is returned as it is.
\<close>

fun freeze :: "pyval \<Rightarrow> frozen" where
  "freeze (PDict d) = FSet (map (\<lambda>(k, v). FTuple [FStr k, freeze v]) d)"
| "freeze (PList xs) = FTuple (map freeze xs)"
| "freeze PNone = FNone"
| "freeze (PBool b) = FBool b"
| "freeze (PInt i) = FInt i"
| "freeze (PStr s) = FStr s"

text \<open>\<^verbatim>\<open>set(x)\<close> for a frozen value: its elements, or \<^verbatim>\<open>TypeError\<close> when it is not iterable.\<close>

fun set_of_frozen :: "frozen \<Rightarrow> pyerr + frozen list" where
  "set_of_frozen (FSet xs) = Inr xs"
| "set_of_frozen (FTuple xs) = Inr xs"
| "set_of_frozen (FStr s) = Inr (map (\<lambda>c. FStr [c]) s)"
| "set_of_frozen _ = Inl TypeError"

text \<open>\<^verbatim>\<open>s.issubset(t)\<close>\<close>

definition issubset :: "frozen list \<Rightarrow> frozen list \<Rightarrow> bool" where
  "issubset s t = list_all (\<lambda>x. list_ex (\<lambda>y. fr_eq x y) t) s"

text \<open>
  One element of \<^verbatim>\<open>template_sets\<close>: the template's items, with \<^verbatim>\<open>matchCriteria\<close> replaced
  by the set of its \<^verbatim>\<open>(key, value)\<close> tuples.
\<close>

record template_set =
  matchCriteria :: "frozen list"
  other_items :: "(string \<times> pyval) list"

text \<open>
  \<^verbatim>\<open>dict(list(template.items()) + [("matchCriteria", set(template["matchCriteria"].items()))])\<close>:
  building the set hashes every tuple, so a list or dictionary among the criteria values
  raises \<^verbatim>\<open>TypeError\<close>.
\<close>

fun make_template_set :: "pyval \<Rightarrow> pyerr + template_set" where
  "make_template_set (PDict items) =
     (case map_of items ''matchCriteria'' of
        None \<Rightarrow> Inl KeyError
      | Some (PDict criteria) \<Rightarrow>
          if list_all (\<lambda>(k, v). hashable v) criteria
          then Inr \<lparr>matchCriteria = map (\<lambda>(k, v). FTuple [FStr k, freeze v]) criteria,
                    other_items = items\<rparr>
          else Inl TypeError
      | Some _ \<Rightarrow> Inl AttributeError)"
| "make_template_set _ = Inl AttributeError"

text \<open>The \<^verbatim>\<open>for template in template_sets\<close> loop of \<^verbatim>\<open>match_new_data_source\<close>.\<close>

fun find_new_conn :: "template_set list \<Rightarrow> pyval \<Rightarrow> pyerr + pyval" where
  "find_new_conn [] item = Inr PNone"
| "find_new_conn (template # templates) item =
     bind_res (set_of_frozen (freeze item)) (\<lambda>frozen_item.
       if issubset (matchCriteria template) frozen_item
       then (case map_of (other_items template) ''dataSource'' of
               None \<Rightarrow> Inl KeyError
             | Some new_conn \<Rightarrow> Inr new_conn)
       else find_new_conn templates item)"

definition match_new_data_source :: "template_set list \<Rightarrow> bool \<Rightarrow> pyval \<Rightarrow> pyerr + pyval" where
  "match_new_data_source template_sets raise_exception_no_change item =
     (if py_eq item PNone then Inr PNone
      else bind_res (find_new_conn template_sets item) (\<lambda>new_conn.
             if py_eq new_conn PNone \<and> raise_exception_no_change
             then Inl RuntimeError
             else Inr new_conn))"

definition create_replacement_data_sources_list ::
  "pyval \<Rightarrow> pyval list \<Rightarrow> bool \<Rightarrow> pyerr + pyval" where
  "create_replacement_data_sources_list document_data_sources_list data_source_templates
       raise_exception_no_change =
     bind_res (map_res make_template_set data_source_templates) (\<lambda>template_sets.
     bind_res (py_iter document_data_sources_list) (\<lambda>dfs.
     bind_res (map_res (\<lambda>df.
         bind_res (py_getitem df ''layers'') (\<lambda>ls.
         bind_res (py_iter ls) (\<lambda>layers.
         bind_res (map_res (match_new_data_source template_sets raise_exception_no_change) layers)
           (\<lambda>new_layers.
         bind_res (py_getitem df ''tableViews'') (\<lambda>ts.
         bind_res (py_iter ts) (\<lambda>tables.
         bind_res (map_res (match_new_data_source template_sets raise_exception_no_change) tables)
           (\<lambda>new_tables.
           Inr (PDict [(''layers'', PList new_layers), (''tableViews'', PList new_tables)])))))))) dfs)
       (\<lambda>result. Inr (PList result))))"

section \<open>Bulk data-source rewriter\<close>

text \<open>
  A layer or table of the open project, as far as \<^verbatim>\<open>change_data_sources\<close> touches it: its
  connection properties, and how arcpy answers the update. arcpy is outside the
  repository, so its answer is part of the input: \<open>update_raises\<close> says that
  \<^verbatim>\<open>updateConnectionProperties\<close> raises (the layer is then left as it was), \<open>broken_after\<close>
  that the object has the attribute \<^verbatim>\<open>isBroken\<close> and it is true after the update.
\<close>

record layer_obj =
  lname :: string
  connectionProperties :: pyval
  update_raises :: bool
  broken_after :: bool

record arc_map =
  map_layers :: "layer_obj list"
  map_tables :: "layer_obj list"

text \<open>
  Modelled from the spec: the classes \<^verbatim>\<open>MapLayerError\<close> and \<^verbatim>\<open>DataSourceUpdateError\<close> are
  imported from \<^verbatim>\<open>..exceptions\<close> but their files are not among the sources. The spec counts
  a failed connection update and a layer that is broken after its update among the per-item
  failures that are collected, so \<^verbatim>\<open>DataSourceUpdateError\<close> is a \<^verbatim>\<open>MapLayerError\<close> here: the
  handlers \<^verbatim>\<open>except MapLayerError\<close> catch it. The argument is the layer's name.
\<close>

datatype map_layer_error =
    UpdateRaised string
  | NowBroken string

datatype cds_error =
    ChangeDataSourcesError string "map_layer_error list option"
  | PyError pyerr

text \<open>\<^verbatim>\<open>_change_data_source\<close>\<close>

definition change_data_source :: "layer_obj \<Rightarrow> pyval \<Rightarrow> layer_obj \<times> map_layer_error option" where
  "change_data_source layer new_props =
     (if update_raises layer then (layer, Some (UpdateRaised (lname layer)))
      else let layer' = layer\<lparr>connectionProperties := new_props\<rparr>
           in if broken_after layer then (layer', Some (NowBroken (lname layer)))
              else (layer', None))"

text \<open>
  \<^verbatim>\<open>for layer, layer_source in zip_longest(layers, layer_sources)\<close>, entered only when the two
  lists have the same length, so no pair is padded.
\<close>

fun layers_loop ::
  "layer_obj list \<Rightarrow> pyval list \<Rightarrow> map_layer_error list \<Rightarrow> layer_obj list \<times> map_layer_error list" where
  "layers_loop (layer # layers) (layer_source # layer_sources) errors =
     (if py_eq layer_source PNone
      then (let (layers', errors') = layers_loop layers layer_sources errors
            in (layer # layers', errors'))
      else (let (layer', e) = change_data_source layer layer_source;
                (layers', errors') =
                   layers_loop layers layer_sources
                     (case e of None \<Rightarrow> errors | Some mle \<Rightarrow> errors @ [mle])
            in (layer' # layers', errors')))"
| "layers_loop layers layer_sources errors = (layers, errors)"

text \<open>
  The loop over the tables passes \<^verbatim>\<open>layer_source.get("connectionProperties")\<close>; a source
  that is not a dictionary has no \<^verbatim>\<open>get\<close>, and the \<^verbatim>\<open>AttributeError\<close> is not a
  \<^verbatim>\<open>MapLayerError\<close>, so it leaves \<^verbatim>\<open>change_data_sources\<close>.
\<close>

fun py_get :: "pyval \<Rightarrow> string \<Rightarrow> pyerr + pyval" where
  "py_get (PDict d) k = Inr (case map_of d k of Some v \<Rightarrow> v | None \<Rightarrow> PNone)"
| "py_get _ k = Inl AttributeError"

fun tables_loop ::
  "layer_obj list \<Rightarrow> pyval list \<Rightarrow> map_layer_error list
   \<Rightarrow> layer_obj list \<times> (pyerr + map_layer_error list)" where
  "tables_loop (data_table # data_tables) (layer_source # sources) errors =
     (if py_eq layer_source PNone
      then (let (tables', r) = tables_loop data_tables sources errors
            in (data_table # tables', r))
      else (case py_get layer_source ''connectionProperties'' of
              Inl e \<Rightarrow> (data_table # data_tables, Inl e)
            | Inr new_props \<Rightarrow>
                let (table', e) = change_data_source data_table new_props;
                    (tables', r) =
                       tables_loop data_tables sources
                         (case e of None \<Rightarrow> errors | Some mle \<Rightarrow> errors @ [mle])
                in (table' # tables', r)))"
| "tables_loop data_tables sources errors = (data_tables, Inr errors)"

text \<open>The body of the loop over the maps, for a map and its entry of \<^verbatim>\<open>data_sources\<close>.\<close>

definition change_map ::
  "arc_map \<Rightarrow> pyval \<Rightarrow> map_layer_error list \<Rightarrow> arc_map \<times> (cds_error + map_layer_error list)" where
  "change_map proj_map map_data_sources errors =
     (case bind_res (py_in ''layers'' map_data_sources) (\<lambda>has_layers.
           if \<not> has_layers then Inr False else py_in ''tableViews'' map_data_sources) of
        Inl e \<Rightarrow> (proj_map, Inl (PyError e))
      | Inr both \<Rightarrow>
        if \<not> both
        then (proj_map, Inl (ChangeDataSourcesError
               ''Data sources dictionary does not contain both layers and tableViews keys'' None))
        else
        (case bind_res (py_getitem map_data_sources ''layers'') (\<lambda>layer_sources.
              if py_eq layer_sources PNone then Inr None
              else bind_res (py_len layer_sources) (\<lambda>n.
                   if length (map_layers proj_map) \<noteq> n then Inr None
                   else bind_res (py_iter layer_sources) (\<lambda>srcs. Inr (Some srcs)))) of
           Inl e \<Rightarrow> (proj_map, Inl (PyError e))
         | Inr None \<Rightarrow>
             (proj_map, Inl (ChangeDataSourcesError
                ''Number of layers does not match number of data sources.'' None))
         | Inr (Some layer_sources) \<Rightarrow>
             let (layers', errors1) = layers_loop (map_layers proj_map) layer_sources errors;
                 map1 = proj_map\<lparr>map_layers := layers'\<rparr>
             in (case bind_res (py_getitem map_data_sources ''tableViews'') (\<lambda>table_sources.
                      bind_res (py_len table_sources) (\<lambda>n.
                      if \<not> (length (map_tables proj_map) = n) then Inr None
                      else bind_res (py_iter table_sources) (\<lambda>srcs. Inr (Some srcs)))) of
                   Inl e \<Rightarrow> (map1, Inl (PyError e))
                 | Inr None \<Rightarrow>
                     (map1, Inl (ChangeDataSourcesError
                        ''Number of data tables does not match number of data table data sources.''
                        None))
                 | Inr (Some table_sources) \<Rightarrow>
                     (case tables_loop (map_tables proj_map) table_sources errors1 of
                        (tables', Inl e) \<Rightarrow> (map1\<lparr>map_tables := tables'\<rparr>, Inl (PyError e))
                      | (tables', Inr errors2) \<Rightarrow>
                          (map1\<lparr>map_tables := tables'\<rparr>, Inr errors2)))))"

text \<open>
  \<^verbatim>\<open>for proj_map, map_data_sources in zip_longest(project.listMaps(), data_sources)\<close>: the
  shorter list is padded with \<^verbatim>\<open>None\<close>. A missing entry of \<^verbatim>\<open>data_sources\<close> fails at
  \<^verbatim>\<open>'layers' in None\<close>; a missing map passes the key test of its entry and fails at
  \<^verbatim>\<open>proj_map.listLayers()\<close>.
\<close>

fun maps_loop ::
  "arc_map list \<Rightarrow> pyval list \<Rightarrow> map_layer_error list
   \<Rightarrow> arc_map list \<times> (cds_error + map_layer_error list)" where
  "maps_loop [] [] errors = ([], Inr errors)"
| "maps_loop (proj_map # maps) [] errors = (proj_map # maps, Inl (PyError TypeError))"
| "maps_loop [] (map_data_sources # data_sources) errors =
     (case bind_res (py_in ''layers'' map_data_sources) (\<lambda>has_layers.
           if \<not> has_layers then Inr False else py_in ''tableViews'' map_data_sources) of
        Inl e \<Rightarrow> ([], Inl (PyError e))
      | Inr both \<Rightarrow>
          if \<not> both
          then ([], Inl (ChangeDataSourcesError
                 ''Data sources dictionary does not contain both layers and tableViews keys'' None))
          else ([], Inl (PyError AttributeError)))"
| "maps_loop (proj_map # maps) (map_data_sources # data_sources) errors =
     (case change_map proj_map map_data_sources errors of
        (proj_map', Inl e) \<Rightarrow> (proj_map' # maps, Inl e)
      | (proj_map', Inr errors') \<Rightarrow>
          let (maps', r) = maps_loop maps data_sources errors'
          in (proj_map' # maps', r))"

text \<open>
  \<^verbatim>\<open>change_data_sources\<close>: the project as the call leaves it, and the exception it raises,
  if any.
\<close>

definition change_data_sources :: "arc_map list \<Rightarrow> pyval list \<Rightarrow> arc_map list \<times> cds_error option" where
  "change_data_sources proj data_sources =
     (case maps_loop proj data_sources [] of
        (proj', Inl e) \<Rightarrow> (proj', Some e)
      | (proj', Inr errors) \<Rightarrow>
          if \<not> (length errors = 0)
          then (proj', Some (ChangeDataSourcesError
                  ''A number of errors were encountered whilst change layer data sources.''
                  (Some errors)))
          else (proj', None))"

section \<open>Concrete inputs\<close>

text \<open>The two layer records of the spec's data-source scenario.\<close>

definition roads_2020 :: pyval where
  "roads_2020 = PDict [(''id'', PInt 1), (''name'', PStr ''Roads''),
                       (''datasetName'', PStr ''roads_2020'')]"

definition roads_2021 :: pyval where
  "roads_2021 = PDict [(''id'', PInt 1), (''name'', PStr ''Roads''),
                       (''datasetName'', PStr ''roads_2021'')]"

definition wgs84 :: spatial_ref where
  "wgs84 = \<lparr>factoryCode = 4326, sr_type = ''Geographic'', sr_name = ''GCS_WGS_1984''\<rparr>"

text \<open>A map with the given layer details and no tables.\<close>

definition map_of_layers :: "pyval list \<Rightarrow> proj_map" where
  "map_of_layers ls = \<lparr>spatialReference = wgs84, layer_details = ls, table_details = []\<rparr>"

text \<open>Three templates: one for the layer named Roads, one that matches every record, and
  one that matches Roads with the payload \<^verbatim>\<open>None\<close>.\<close>

definition roads_template :: pyval where
  "roads_template = PDict [(''matchCriteria'', PDict [(''name'', PStr ''Roads'')]),
                           (''dataSource'', PDict [(''database'', PStr ''prod.gdb'')])]"

definition any_template :: pyval where
  "any_template = PDict [(''matchCriteria'', PDict []),
                         (''dataSource'', PDict [(''database'', PStr ''other.gdb'')])]"

definition keep_template :: pyval where
  "keep_template = PDict [(''matchCriteria'', PDict [(''name'', PStr ''Roads'')]),
                          (''dataSource'', PNone)]"

text \<open>Layers of an open project: one that updates, one whose update raises, one that is
  broken after its update; and a new connection.\<close>

definition good_layer :: layer_obj where
  "good_layer = \<lparr>lname = ''Roads'', connectionProperties = PDict [(''database'', PStr ''dev.gdb'')],
                  update_raises = False, broken_after = False\<rparr>"



definition prod_conn :: pyval where
  "prod_conn = PDict [(''database'', PStr ''prod.gdb'')]"

section \<open>The bulk rewrite, layer by layer\<close>

text \<open>
  What the claims about \<^verbatim>\<open>change_data_sources\<close> say of a single layer: it is skipped when
  its replacement is \<^verbatim>\<open>None\<close> and updated otherwise, whatever happened to the layers
  before it, and a failed update is one collected failure. These definitions follow the
  claims; the theorems compare them with the loops above.
\<close>

definition updated_layer :: "layer_obj \<Rightarrow> pyval \<Rightarrow> layer_obj" where
  "updated_layer layer src = (if src = PNone then layer else fst (change_data_source layer src))"

definition layer_failure :: "layer_obj \<Rightarrow> pyval \<Rightarrow> map_layer_error list" where
  "layer_failure layer src =
     (if src = PNone then []
      else case snd (change_data_source layer src) of None \<Rightarrow> [] | Some e \<Rightarrow> [e])"




fun is_dict :: "pyval \<Rightarrow> bool" where
  "is_dict (PDict d) = True"
| "is_dict _ = False"





section \<open>The pairs matched by a run of the correlation\<close>

text \<open>
  The claims speak of the layers that are \<^emph>\<open>matched\<close>. The source keeps no list of them, so
  the following functions replay the loops above and collect the pairs
  \<open>(a_layer, b_layer)\<close> for which the body of \<^verbatim>\<open>if match is not None\<close> is entered;
  \<open>b\<close> is the after-layer of the current outer iteration. They only observe: every state
  is advanced by the loop functions themselves.
\<close>

fun tests_loop_pairs ::
  "diff_fun \<Rightarrow> corr_test list \<Rightarrow> pyval \<Rightarrow> pyval \<Rightarrow> match_state \<Rightarrow> (pyval \<times> pyval) list" where
  "tests_loop_pairs ldiff [] a_layer b st = []"
| "tests_loop_pairs ldiff (test # tests) a_layer b st =
     (let ign = (case ignore test of Some c \<Rightarrow> c = True | None \<Rightarrow> False) in
      case fn test st a_layer (b_layer st) of
        Inl e \<Rightarrow> []
      | Inr m \<Rightarrow>
          let st' = st\<lparr>matched := m\<rparr> in
          if m \<noteq> PNone
          then (a_layer, b) #
               (case on_match ldiff ign a_layer st' of
                  (st'', Inl e) \<Rightarrow> []
                | (st'', Inr brk) \<Rightarrow>
                    if brk then [] else tests_loop_pairs ldiff tests a_layer b st'')
          else tests_loop_pairs ldiff tests a_layer b st')"

fun a_loop_pairs ::
  "diff_fun \<Rightarrow> corr_test list \<Rightarrow> pyval list \<Rightarrow> pyval \<Rightarrow> match_state \<Rightarrow> (pyval \<times> pyval) list" where
  "a_loop_pairs ldiff tests [] b st = []"
| "a_loop_pairs ldiff tests (a_layer # a_layers) b st =
     tests_loop_pairs ldiff tests a_layer b st @
     (case tests_loop ldiff tests a_layer st of
        (st', Some e) \<Rightarrow> []
      | (st', None) \<Rightarrow> a_loop_pairs ldiff tests a_layers b st')"

fun b_loop_pairs ::
  "diff_fun \<Rightarrow> corr_test list \<Rightarrow> pyval list \<Rightarrow> pyval list \<Rightarrow> match_state
   \<Rightarrow> (pyval \<times> pyval) list" where
  "b_loop_pairs ldiff tests a_layers [] st = []"
| "b_loop_pairs ldiff tests a_layers (b # b_layers) st =
     a_loop_pairs ldiff tests a_layers b (st\<lparr>b_layer := b, aliases := 0, matched := PNone\<rparr>) @
     (case process_b ldiff tests a_layers b st of
        (st', Some e) \<Rightarrow> []
      | (st', None) \<Rightarrow> b_loop_pairs ldiff tests a_layers b_layers st')"

definition matched_pairs ::
  "diff_fun \<Rightarrow> eq_fun \<Rightarrow> pyval list \<Rightarrow> pyval list \<Rightarrow> (pyval \<times> pyval) list" where
  "matched_pairs ldiff eqf a_layers b_layers =
     b_loop_pairs ldiff (corr_tests eqf) a_layers b_layers init_state"

text \<open>
  The value under \<^verbatim>\<open>name\<close> (\<open>PNone\<close> when there is none), and the pools the
  \<^verbatim>\<open>name\<close>-keyed bookkeeping is made for: every layer is a dictionary whose \<^verbatim>\<open>name\<close> is a
  string, and no two layers of the pool have the same name.
\<close>

definition layer_name :: "pyval \<Rightarrow> pyval" where
  "layer_name l = (case py_getitem l ''name'' of Inr v \<Rightarrow> v | Inl e \<Rightarrow> PNone)"

fun is_str :: "pyval \<Rightarrow> bool" where
  "is_str (PStr s) = True"
| "is_str _ = False"

definition named :: "pyval \<Rightarrow> bool" where
  "named l = (is_dict l \<and> is_str (layer_name l))"

definition distinctly_named :: "pyval list \<Rightarrow> bool" where
  "distinctly_named ls = (list_all named ls \<and> distinct (map layer_name ls))"

text \<open>Two before-layers with one name, and two with one id, for the counterexamples.\<close>

definition layer_a1 :: pyval where
  "layer_a1 = PDict [(''id'', PInt 1), (''name'', PStr ''A'')]"

definition layer_a2 :: pyval where
  "layer_a2 = PDict [(''id'', PInt 2), (''name'', PStr ''A'')]"

definition layer_x :: pyval where
  "layer_x = PDict [(''id'', PInt 1), (''name'', PStr ''X''), (''datasetName'', PStr ''d'')]"

definition layer_y :: pyval where
  "layer_y = PDict [(''id'', PInt 1), (''name'', PStr ''Y''), (''datasetName'', PStr ''d'')]"

text \<open>
  How the inner loops for one after-layer with name \<open>nb\<close> may change the state: the names
  \<open>A\<close> are marked in \<^verbatim>\<open>resolved_a\<close>; \<open>nb\<close> is marked in \<^verbatim>\<open>resolved_b\<close> exactly when
  a match was made (\<open>hit\<close>); \<^verbatim>\<open>added\<close> and \<^verbatim>\<open>removed\<close> are left alone; the current
  after-layer keeps its name, and is not touched at all without a match; and if \<^verbatim>\<open>match\<close>
  is not \<^verbatim>\<open>None\<close> then \<open>nb\<close> is marked.
\<close>

definition run_rel :: "pyval \<Rightarrow> pyval set \<Rightarrow> bool \<Rightarrow> match_state \<Rightarrow> match_state \<Rightarrow> bool" where
  "run_rel nb A hit st st' =
     (set (resolved_a st') = set (resolved_a st) \<union> A \<and>
      set (resolved_b st') = set (resolved_b st) \<union> (if hit then {nb} else {}) \<and>
      added st' = added st \<and> removed st' = removed st \<and>
      named (b_layer st') \<and> layer_name (b_layer st') = nb \<and>
      (\<not> hit \<longrightarrow> b_layer st' = b_layer st) \<and>
      ((matched st \<noteq> PNone \<longrightarrow> nb \<in> set (resolved_b st)) \<longrightarrow>
       (matched st' \<noteq> PNone \<longrightarrow> nb \<in> set (resolved_b st'))))"

section \<open>Evaluation lemmas\<close>

lemmas res_simps = bind_res_def and_res_def not_res_def

lemma map_res_py_iter_lists: "map_res py_iter (map PList xss) = Inr xss"
  by (induction xss) (simp_all add: bind_res_def)

lemma flatten_lists:
  "flatten (PList (map PList xss)) = Inr (filter (\<lambda>item. item \<noteq> PNone) (concat xss))"
  by (simp add: flatten_def bind_res_def map_res_py_iter_lists)

section \<open>The two copies of \<^verbatim>\<open>_layer_diff\<close>\<close>

lemma layer_diff_step_mp_eq: "layer_diff_step_mp = layer_diff_step_mapping3"
  unfolding layer_diff_step_mp_def layer_diff_step_mapping3_def
    eq_mp_def eq_mapping3_def express_diff_mp_def express_diff_mapping3_def
    hash_mp_def hash_mapping3_def unhash_mp_def unhash_mapping3_def
    inflate_mp_def inflate_mapping3_def
  by (rule refl)

lemma layer_diff_loop_mp_eq:
  "layer_diff_loop_mp ord a b tests diff = layer_diff_loop_mapping3 ord a b tests diff"
proof (induction tests arbitrary: diff)
  case Nil
  show ?case by simp
next
  case (Cons test tests)
  have "layer_diff_loop_mp ord a b tests = layer_diff_loop_mapping3 ord a b tests"
    using Cons.IH by (simp add: fun_eq_iff)
  then show ?case by (simp add: layer_diff_step_mp_eq)
qed

text \<open>
  C9. The \<^verbatim>\<open>_layer_diff\<close> nested in \<^verbatim>\<open>compare\<close> of \<^verbatim>\<open>mp/_mp.py\<close> and the one nested in
  \<^verbatim>\<open>compare\<close> of \<^verbatim>\<open>mapping/_mapping3.py\<close> are extensionally equal: for every pair of
  values \<open>a\<close>, \<open>b\<close> (and every iteration order of Python's sets) they return the same
  list of diff entries in the same order, or raise the same exception.
\<close>

theorem layer_diff_mp_eq_mapping3: "layer_diff_mp ord a b = layer_diff_mapping3 ord a b"
  by (simp add: layer_diff_mp_def layer_diff_mapping3_def layer_diff_loop_mp_eq
      layer_tests_mp_def layer_tests_mapping3_def)

theorem layer_diff_mp_eq_mapping3_witness:
  "layer_diff_mp id roads_2020 roads_2021 = layer_diff_mapping3 id roads_2020 roads_2021"
  using layer_diff_mp_eq_mapping3 [of id roads_2020 roads_2021] by simp

section \<open>The field-level diff on the data-source scenario\<close>

text \<open>
  C3. For before \<^verbatim>\<open>{id:1, name:"Roads", datasetName:"roads_2020"}\<close> and after
  \<^verbatim>\<open>{id:1, name:"Roads", datasetName:"roads_2021"}\<close> the claim expects the single entry
  \<^verbatim>\<open>{type: datasource_changed, was:"roads_2020", now:"roads_2021"}\<close>, an attribute absent
  from both records giving no entry. The code takes the \<^verbatim>\<open>else\<close> branch of
  \<^verbatim>\<open>if k in a and k in b\<close> for every attribute that is missing from both records as well,
  and returns eight entries: seven of them with \<^verbatim>\<open>was\<close> and \<^verbatim>\<open>now\<close> both \<^verbatim>\<open>None\<close>.
\<close>

theorem layer_diff_roads_scenario:
  "layer_diff_mapping3 ord roads_2020 roads_2021 =
     Inr [PDict [(''type'', PInt 404), (''was'', PNone), (''now'', PNone)],
          PDict [(''type'', PInt 403), (''was'', PNone), (''now'', PNone)],
          PDict [(''type'', PInt 403), (''was'', PStr ''roads_2020''),
                 (''now'', PStr ''roads_2021'')],
          PDict [(''type'', PInt 403), (''was'', PNone), (''now'', PNone)],
          PDict [(''type'', PInt 403), (''was'', PNone), (''now'', PNone)],
          PDict [(''type'', PInt 403), (''was'', PNone), (''now'', PNone)],
          PDict [(''type'', PInt 406), (''was'', PNone), (''now'', PNone)],
          PDict [(''type'', PInt 405), (''was'', PNone), (''now'', PNone)]]"
  by (simp add: layer_diff_mapping3_def layer_tests_mapping3_def layer_diff_step_mapping3_def
      roads_2020_def roads_2021_def res_simps eq_mapping3_def express_diff_mapping3_def)

section \<open>Exceptions leaving \<^verbatim>\<open>compare\<close>\<close>

text \<open>
  C5. The claim says that \<^verbatim>\<open>compare\<close> never propagates an exception. In
  \<^verbatim>\<open>mapping/_mapping3.py\<close> an exception raised before \<^verbatim>\<open>added = []\<close> is caught and logged,
  but the \<^verbatim>\<open>finally\<close> block then returns the unbound locals, and \<^verbatim>\<open>UnboundLocalError\<close>
  leaves \<^verbatim>\<open>compare\<close>: for two projects without maps (\<^verbatim>\<open>a[0]\<close> raises \<^verbatim>\<open>IndexError\<close>),
  and for two projects whose first map holds a group layer (iterating its \<^verbatim>\<open>None\<close>
  placeholder raises \<^verbatim>\<open>TypeError\<close>).
\<close>

theorem compare_mapping3_propagates:
  "compare_mapping3 ord [] [] = Inl UnboundLocalError \<and>
   compare_mapping3 ord [map_of_layers [PNone, roads_2020]] [map_of_layers [PNone, roads_2021]]
     = Inl UnboundLocalError"
  by (simp add: compare_mapping3_def compare_layers_mapping3_def layer_pool_mapping3_def
      list_document_data_sources_mapping3_def res_simps map_of_layers_def flatten_def)

section \<open>The candidate pools\<close>

text \<open>
  C4, as the claim states it, fails for \<^verbatim>\<open>mapping/_mapping3.py\<close>: with a layer on each of
  two maps, the pool is not the flattened layer lists of both maps (it is built from the
  first map alone).
\<close>

theorem layer_pool_mapping3_counterexample:
  "layer_pool_mapping3 [map_of_layers [roads_2020], map_of_layers [roads_2021]]
     \<noteq> Inr (filter (\<lambda>item. item \<noteq> PNone)
              (concat (map layer_details [map_of_layers [roads_2020], map_of_layers [roads_2021]])))"
  by (simp add: layer_pool_mapping3_def list_document_data_sources_mapping3_def bind_res_def
      map_of_layers_def flatten_def roads_2020_def)

text \<open>
  C4, amended. In \<^verbatim>\<open>mp/_mp.py\<close> the pool of a snapshot is the concatenation of the layer
  lists of all its data frames, without the \<^verbatim>\<open>None\<close> entries. In
  \<^verbatim>\<open>mapping/_mapping3.py\<close> the pool is computed from the first map only: the maps after
  the first do not change it.
\<close>

theorem layer_pools:
  "layer_pool_mp proj
     = Inr (filter (\<lambda>item. item \<noteq> PNone) (concat (map layer_details proj))) \<and>
   layer_pool_mapping3 (first_map # other_maps) = layer_pool_mapping3 [first_map]"
proof -
  have "map (\<lambda>df. PList (layer_details df)) proj = map PList (map layer_details proj)"
    by simp
  then have "layer_pool_mp proj
     = Inr (filter (\<lambda>item. item \<noteq> PNone) (concat (map layer_details proj)))"
    by (simp add: layer_pool_mp_def list_document_data_sources_mp_def bind_res_def
        flatten_lists del: map_map)
  moreover have "layer_pool_mapping3 (first_map # other_maps) = layer_pool_mapping3 [first_map]"
    by (simp add: layer_pool_mapping3_def list_document_data_sources_mapping3_def bind_res_def)
  ultimately show ?thesis by simp
qed

theorem layer_pools_witness:
  "layer_pool_mp [map_of_layers [roads_2020, PNone], map_of_layers [roads_2021]]
     = Inr [roads_2020, roads_2021] \<and>
   layer_pool_mapping3 [map_of_layers [roads_2020], map_of_layers [roads_2021]]
     = layer_pool_mapping3 [map_of_layers [roads_2020]]"
  using layer_pools [of "[map_of_layers [roads_2020, PNone], map_of_layers [roads_2021]]"
      "map_of_layers [roads_2020]" "[map_of_layers [roads_2021]]"]
  by (simp add: map_of_layers_def roads_2020_def roads_2021_def)

section \<open>The template matcher\<close>

text \<open>
  C10. For a \<^verbatim>\<open>None\<close> record (the placeholder of a group layer) \<^verbatim>\<open>match_new_data_source\<close>
  returns \<^verbatim>\<open>None\<close>, whatever the templates are and also in strict mode
  (\<^verbatim>\<open>raise_exception_no_change=True\<close>): no template is tested and nothing is raised.
\<close>

theorem match_new_data_source_None:
  "match_new_data_source template_sets raise_exception_no_change PNone = Inr PNone"
  by (simp add: match_new_data_source_def)

theorem match_new_data_source_None_witness:
  "match_new_data_source
     [\<lparr>matchCriteria = [], other_items = [(''matchCriteria'', PDict [])]\<rparr>] True PNone
   = Inr PNone"
  using match_new_data_source_None
    [of "[\<lparr>matchCriteria = [], other_items = [(''matchCriteria'', PDict [])]\<rparr>]" True]
  by simp

lemma py_eq_PNone [simp]: "py_eq v PNone \<longleftrightarrow> v = PNone"
  by (cases v) simp_all

lemma find_new_conn_dict:
  "find_new_conn template_sets (PDict d) =
     (case find (\<lambda>t. issubset (matchCriteria t) (map (\<lambda>(k, v). FTuple [FStr k, freeze v]) d))
             template_sets of
        None \<Rightarrow> Inr PNone
      | Some t \<Rightarrow> (case map_of (other_items t) ''dataSource'' of
                     None \<Rightarrow> Inl KeyError
                   | Some new_conn \<Rightarrow> Inr new_conn))"
  by (induction template_sets) (simp_all add: bind_res_def)

text \<open>
  C8, as the claim states it, fails in strict mode for a template whose payload is
  \<^verbatim>\<open>None\<close>: the template \<open>keep_template\<close> matches the Roads record (its criteria set is
  a subset of the frozen record), so the claim has its payload \<^verbatim>\<open>None\<close> returned, but
  the call raises \<^verbatim>\<open>RuntimeError\<close>.
\<close>

theorem strict_null_payload_counterexample:
  "make_template_set keep_template
     = Inr \<lparr>matchCriteria = [FTuple [FStr ''name'', FStr ''Roads'']],
            other_items = [(''matchCriteria'', PDict [(''name'', PStr ''Roads'')]),
                           (''dataSource'', PNone)]\<rparr> \<and>
   set_of_frozen (freeze roads_2020)
     = Inr [FTuple [FStr ''id'', FInt 1], FTuple [FStr ''name'', FStr ''Roads''],
            FTuple [FStr ''datasetName'', FStr ''roads_2020'']] \<and>
   issubset [FTuple [FStr ''name'', FStr ''Roads'']]
     [FTuple [FStr ''id'', FInt 1], FTuple [FStr ''name'', FStr ''Roads''],
      FTuple [FStr ''datasetName'', FStr ''roads_2020'']] \<and>
   create_replacement_data_sources_list
     (PList [PDict [(''layers'', PList [roads_2020]), (''tableViews'', PList [])]])
     [keep_template] True
     = Inl RuntimeError"
  by (simp add: keep_template_def roads_2020_def issubset_def
      create_replacement_data_sources_list_def match_new_data_source_def bind_res_def)

text \<open>
  C8, amended. \<^verbatim>\<open>freeze\<close> turns a dictionary into the set of its key/frozen-value pairs
  and a list into the tuple of its frozen elements. For a record (a dictionary),
  \<^verbatim>\<open>match_new_data_source\<close> looks for the first template, in declaration order, whose
  criteria set is a subset of the frozen record, and takes its \<^verbatim>\<open>dataSource\<close> payload
  (\<^verbatim>\<open>KeyError\<close> if it has none). When no template matches, or when that payload is
  \<^verbatim>\<open>None\<close>, it returns \<^verbatim>\<open>None\<close>, and in strict mode raises \<^verbatim>\<open>RuntimeError\<close> instead;
  otherwise it returns the payload.
\<close>

theorem match_new_data_source_first_match:
  "freeze (PDict d) = FSet (map (\<lambda>(k, v). FTuple [FStr k, freeze v]) d) \<and>
   freeze (PList xs) = FTuple (map freeze xs) \<and>
   match_new_data_source template_sets strict (PDict d) =
     (case find (\<lambda>t. issubset (matchCriteria t) (map (\<lambda>(k, v). FTuple [FStr k, freeze v]) d))
             template_sets of
        None \<Rightarrow> if strict then Inl RuntimeError else Inr PNone
      | Some t \<Rightarrow> (case map_of (other_items t) ''dataSource'' of
                     None \<Rightarrow> Inl KeyError
                   | Some new_conn \<Rightarrow>
                       if new_conn = PNone \<and> strict then Inl RuntimeError else Inr new_conn))"
  by (simp add: match_new_data_source_def find_new_conn_dict bind_res_def
      split: option.splits)

theorem match_new_data_source_first_match_witness:
  "match_new_data_source
     [\<lparr>matchCriteria = [FTuple [FStr ''name'', FStr ''Rivers'']],
       other_items = [(''dataSource'', PStr ''rivers'')]\<rparr>,
      \<lparr>matchCriteria = [FTuple [FStr ''name'', FStr ''Roads'']],
       other_items = [(''dataSource'', PStr ''first'')]\<rparr>,
      \<lparr>matchCriteria = [],
       other_items = [(''dataSource'', PStr ''second'')]\<rparr>]
     True (PDict [(''id'', PInt 1), (''name'', PStr ''Roads'')])
   = Inr (PStr ''first'')"
  using match_new_data_source_first_match
    [of "[(''id'', PInt 1), (''name'', PStr ''Roads'')]" "[]"
        "[\<lparr>matchCriteria = [FTuple [FStr ''name'', FStr ''Rivers'']],
           other_items = [(''dataSource'', PStr ''rivers'')]\<rparr>,
          \<lparr>matchCriteria = [FTuple [FStr ''name'', FStr ''Roads'']],
           other_items = [(''dataSource'', PStr ''first'')]\<rparr>,
          \<lparr>matchCriteria = [],
           other_items = [(''dataSource'', PStr ''second'')]\<rparr>]" True]
  by (simp add: issubset_def)

section \<open>The bulk rewriter\<close>

lemma layers_loop_all:
  "length layers = length srcs \<Longrightarrow>
   layers_loop layers srcs errors =
     (map2 updated_layer layers srcs, errors @ concat (map2 layer_failure layers srcs))"
proof (induction layers srcs arbitrary: errors rule: list_induct2)
  case Nil
  show ?case by simp
next
  case (Cons layer layers src srcs)
  show ?case
    by (cases "change_data_source layer src")
       (simp add: Cons.IH updated_layer_def layer_failure_def split: option.splits)
qed



lemma map_of_key: "map_of d k = Some v \<Longrightarrow> k \<in> fst ` set d"
  by (metis domI dom_map_of_conv_image_fst)









text \<open>
  C6, as the claim states it, fails for the table list: with one layer and no table, a
  \<^verbatim>\<open>tableViews\<close> list of length one raises the fatal error, but only after the layer of
  that map has been given its new connection.
\<close>

theorem table_mismatch_counterexample:
  "change_data_sources [\<lparr>map_layers = [good_layer], map_tables = []\<rparr>]
     [PDict [(''layers'', PList [prod_conn]), (''tableViews'', PList [PNone])]]
   = ([\<lparr>map_layers = [good_layer\<lparr>connectionProperties := prod_conn\<rparr>], map_tables = []\<rparr>],
      Some (ChangeDataSourcesError
              ''Number of data tables does not match number of data table data sources.'' None))
   \<and> good_layer\<lparr>connectionProperties := prod_conn\<rparr> \<noteq> good_layer"
  by (simp add: change_data_sources_def change_map_def bind_res_def change_data_source_def
      good_layer_def prod_conn_def)

text \<open>
  C6, amended. When the loop over the maps reaches a map whose entry lists \<^verbatim>\<open>layers\<close> and
  \<^verbatim>\<open>tableViews\<close>: a \<^verbatim>\<open>layers\<close> list whose length differs from the map's layer list raises
  the fatal error with that map (and every later map) untouched; a \<^verbatim>\<open>tableViews\<close> list
  whose length differs from the map's table list raises the fatal error before any table of
  that map is touched, but after the map's layers have been processed.
\<close>

theorem length_mismatch_is_fatal:
  assumes "map_of d ''layers'' = Some (PList ls)"
    and "map_of d ''tableViews'' = Some (PList ts)"
  shows "(length ls \<noteq> length (map_layers proj_map) \<longrightarrow>
            maps_loop (proj_map # maps) (PDict d # data_sources) errors
            = (proj_map # maps,
               Inl (ChangeDataSourcesError
                      ''Number of layers does not match number of data sources.'' None))) \<and>
         (length ls = length (map_layers proj_map) \<and> length ts \<noteq> length (map_tables proj_map) \<longrightarrow>
            maps_loop (proj_map # maps) (PDict d # data_sources) errors
            = (proj_map\<lparr>map_layers := map2 updated_layer (map_layers proj_map) ls\<rparr> # maps,
               Inl (ChangeDataSourcesError
                      ''Number of data tables does not match number of data table data sources.''
                      None)))"
  using assms map_of_key [OF assms(1)] map_of_key [OF assms(2)]
  by (auto simp: change_map_def bind_res_def layers_loop_all)

theorem length_mismatch_is_fatal_witness:
  "maps_loop [\<lparr>map_layers = [good_layer, good_layer], map_tables = []\<rparr>,
              \<lparr>map_layers = [good_layer], map_tables = []\<rparr>]
     [PDict [(''layers'', PList [prod_conn]), (''tableViews'', PList [])],
      PDict [(''layers'', PList [prod_conn]), (''tableViews'', PList [])]] []
   = ([\<lparr>map_layers = [good_layer, good_layer], map_tables = []\<rparr>,
       \<lparr>map_layers = [good_layer], map_tables = []\<rparr>],
      Inl (ChangeDataSourcesError
             ''Number of layers does not match number of data sources.'' None)) \<and>
   maps_loop [\<lparr>map_layers = [good_layer], map_tables = []\<rparr>,
              \<lparr>map_layers = [good_layer], map_tables = []\<rparr>]
     [PDict [(''layers'', PList [prod_conn]), (''tableViews'', PList [PNone])],
      PDict [(''layers'', PList [prod_conn]), (''tableViews'', PList [])]] []
   = ([\<lparr>map_layers = [good_layer\<lparr>connectionProperties := prod_conn\<rparr>], map_tables = []\<rparr>,
       \<lparr>map_layers = [good_layer], map_tables = []\<rparr>],
      Inl (ChangeDataSourcesError
             ''Number of data tables does not match number of data table data sources.''
             None))"
  using length_mismatch_is_fatal
      [of "[(''layers'', PList [prod_conn]), (''tableViews'', PList [])]" "[prod_conn]" "[]"
          "\<lparr>map_layers = [good_layer, good_layer], map_tables = []\<rparr>"
          "[\<lparr>map_layers = [good_layer], map_tables = []\<rparr>]"
          "[PDict [(''layers'', PList [prod_conn]), (''tableViews'', PList [])]]" "[]"]
    length_mismatch_is_fatal
      [of "[(''layers'', PList [prod_conn]), (''tableViews'', PList [PNone])]" "[prod_conn]"
          "[PNone]" "\<lparr>map_layers = [good_layer], map_tables = []\<rparr>"
          "[\<lparr>map_layers = [good_layer], map_tables = []\<rparr>]"
          "[PDict [(''layers'', PList [prod_conn]), (''tableViews'', PList [])]]" "[]"]
  by (simp add: updated_layer_def change_data_source_def good_layer_def prod_conn_def)

section \<open>Comparing a snapshot with itself\<close>



lemma data_frame_entries_same: "data_frame_entries a a = []"
  by (simp add: data_frame_entries_def)

lemma data_frames_loop_same:
  "as = drop i S \<Longrightarrow> data_frames_loop i as S diff = diff"
proof (induction as arbitrary: i)
  case Nil
  show ?case by simp
next
  case (Cons a as)
  from Cons.prems have i: "i < length S"
    by (metis drop_all linorder_not_less list.distinct(1))
  from Cons.prems i have a: "S ! i = a" and rest: "as = drop (Suc i) S"
    by (metis Cons_nth_drop_Suc list.inject)+
  show ?case using i a Cons.IH [OF rest] by (simp add: data_frame_entries_same)
qed

lemma compare_data_frames_same:
  "S \<noteq> [] \<Longrightarrow> compare_data_frames_mapping3 S S = []"
  using data_frames_loop_same [of S 0 S "[]"] by (simp add: compare_data_frames_mapping3_def)

lemma eq_mapping3_str: "eq_mapping3 (PStr a) (PStr b) k \<noteq> Inr True"
  by (simp add: eq_mapping3_def res_simps)

lemma and_res_not_first: "x \<noteq> Inr True \<Longrightarrow> and_res x y \<noteq> Inr True"
  by (cases x) (auto simp: and_res_def)

lemma b_if_not: "c \<noteq> Inr True \<Longrightarrow> b_if c b = Inr m \<Longrightarrow> m = PNone"
  by (cases c) (auto simp: b_if_def bind_res_def split: if_splits)

lemma corr_tests_str:
  "test \<in> set (corr_tests eq_mapping3) \<Longrightarrow> fn test st (PStr a) (PStr b) = Inr m \<Longrightarrow> m = PNone"
  by (auto simp: corr_tests_def same_id_def same_name_def
      dest!: b_if_not [OF and_res_not_first [OF eq_mapping3_str]])

lemma tests_loop_str:
  assumes "\<And>test. test \<in> set tests \<Longrightarrow> test \<in> set (corr_tests eq_mapping3)"
    and "b_layer st = PStr b" and "matched st = PNone"
  shows "fst (tests_loop ldiff tests (PStr a) st) = st"
  using assms
proof (induction tests)
  case Nil
  show ?case by simp
next
  case (Cons test tests)
  have t: "test \<in> set (corr_tests eq_mapping3)" using Cons.prems(1) by simp
  show ?case
  proof (cases "fn test st (PStr a) (PStr b)")
    case (Inl e)
    then show ?thesis using Cons.prems by simp
  next
    case (Inr m)
    then have "m = PNone" using corr_tests_str [OF t] by simp
    moreover have same: "st\<lparr>matched := PNone\<rparr> = st" using Cons.prems(3) by simp
    moreover have "fst (tests_loop ldiff tests (PStr a) st) = st"
      using Cons by simp
    ultimately show ?thesis using Inr Cons.prems(2) by (simp add: same)
  qed
qed

lemma a_loop_str:
  assumes "list_all is_str a_layers" and "b_layer st = PStr b" and "matched st = PNone"
  shows "fst (a_loop ldiff (corr_tests eq_mapping3) a_layers st) = st"
  using assms
proof (induction a_layers)
  case Nil
  show ?case by simp
next
  case (Cons a_layer a_layers)
  then obtain a where a: "a_layer = PStr a" by (cases a_layer) simp_all
  have "fst (tests_loop ldiff (corr_tests eq_mapping3) (PStr a) st) = st"
    using Cons.prems by (intro tests_loop_str) simp_all
  then show ?case using Cons a
    by (cases "tests_loop ldiff (corr_tests eq_mapping3) (PStr a) st") (auto split: option.splits)
qed

lemma process_b_str:
  assumes "list_all is_str a_layers"
  shows "\<exists>e. process_b ldiff (corr_tests eq_mapping3) a_layers (PStr b) st
           = (st\<lparr>b_layer := PStr b, aliases := 0, matched := PNone\<rparr>, Some e)"
proof -
  let ?st0 = "st\<lparr>b_layer := PStr b, aliases := 0, matched := PNone\<rparr>"
  have "fst (a_loop ldiff (corr_tests eq_mapping3) a_layers ?st0) = ?st0"
    using assms by (intro a_loop_str) simp_all
  then show ?thesis
    by (cases "a_loop ldiff (corr_tests eq_mapping3) a_layers ?st0")
       (auto simp: process_b_def is_resolved_b_def bind_res_def split: option.splits)
qed

lemma removed_loop_str:
  "list_all is_str a_layers \<Longrightarrow> fst (removed_loop a_layers st) = st"
  by (cases a_layers; cases "hd a_layers") (auto simp: is_resolved_a_def bind_res_def)

lemma match_layers_str:
  assumes "list_all is_str a_layers" and "list_all is_str b_layers"
  shows "layers_result (fst (match_layers ldiff eq_mapping3 a_layers b_layers))
         = layers_result init_state"
proof (cases b_layers)
  case Nil
  then show ?thesis
    using removed_loop_str [OF assms(1), of init_state]
    by (simp add: match_layers_def match_phase_def)
next
  case (Cons b_layer rest)
  with assms(2) obtain b where b: "b_layer = PStr b" by (cases b_layer) simp_all
  obtain e where "process_b ldiff (corr_tests eq_mapping3) a_layers (PStr b) init_state
           = (init_state\<lparr>b_layer := PStr b, aliases := 0, matched := PNone\<rparr>, Some e)"
    using process_b_str [OF assms(1)] by blast
  then show ?thesis
    by (simp add: match_layers_def match_phase_def Cons b layers_result_def)
qed

lemma map_res_py_iter_dicts:
  "list_all is_dict ls \<Longrightarrow> \<exists>kss. map_res py_iter ls = Inr kss \<and> list_all (list_all is_str) kss"
proof (induction ls)
  case Nil
  show ?case by simp
next
  case (Cons l ls)
  then obtain d where "l = PDict d" by (cases l) simp_all
  moreover have "list_all is_str (map (\<lambda>(k, v). PStr k) d)" by (induction d) auto
  ultimately show ?case using Cons by (auto simp: bind_res_def)
qed

lemma filter_strs: "list_all is_str xs \<Longrightarrow> filter (\<lambda>item. item \<noteq> PNone) xs = xs"
  by (induction xs) auto

lemma flatten_dicts:
  assumes "list_all is_dict ls"
  shows "\<exists>ks. flatten (PList ls) = Inr ks \<and> list_all is_str ks"
proof -
  obtain kss where k: "map_res py_iter ls = Inr kss" "list_all (list_all is_str) kss"
    using map_res_py_iter_dicts [OF assms] by blast
  have "list_all is_str (concat kss)" using k(2) by (induction kss) auto
  then show ?thesis using k(1) by (simp add: flatten_def bind_res_def filter_strs)
qed

text \<open>
  C1, as the claim states it, fails for a snapshot without maps: the data-frame diff of
  \<^verbatim>\<open>compare(S, S)\<close> then holds the entry \<^verbatim>\<open>map_count_changed\<close> (the test is
  \<^verbatim>\<open>map_b_maps_len == 0 or ...\<close>), and the call as a whole does not return a result. Nor
  does it for a snapshot whose first map holds the placeholder of a group layer.
\<close>

theorem compare_no_maps_counterexample:
  "compare_data_frames_mapping3 [] []
     = [PDict [(''type'', PInt 301), (''was'', PInt 0), (''now'', PInt 0)]] \<and>
   compare_mapping3 id [] []
     \<noteq> Inr (PDict [(''dataFrames'', PList []),
                    (''layers'', PDict [(''added'', PList []), (''updated'', PList []),
                                        (''removed'', PList [])])]) \<and>
   compare_mapping3 id [map_of_layers [PNone, roads_2020]] [map_of_layers [PNone, roads_2020]]
     \<noteq> Inr (PDict [(''dataFrames'', PList []),
                    (''layers'', PDict [(''added'', PList []), (''updated'', PList []),
                                        (''removed'', PList [])])])"
  by (simp add: compare_data_frames_mapping3_def compare_mapping3_def compare_layers_mapping3_def
      layer_pool_mapping3_def list_document_data_sources_mapping3_def bind_res_def
      map_of_layers_def flatten_def)

text \<open>
  C1, amended. For every snapshot \<open>S\<close> with at least one map, whose first map lists layer
  records only (no placeholder of a group layer), \<^verbatim>\<open>compare(S, S)\<close> of
  \<^verbatim>\<open>mapping/_mapping3.py\<close> returns \<^verbatim>\<open>dataFrames = []\<close> and \<^verbatim>\<open>layers.added\<close>,
  \<^verbatim>\<open>layers.updated\<close>, \<^verbatim>\<open>layers.removed\<close> all empty, whatever attributes the layers
  have or omit.
\<close>

theorem compare_same:
  assumes "S \<noteq> []" and "list_all is_dict (layer_details (hd S))"
  shows "compare_mapping3 ord S S
         = Inr (PDict [(''dataFrames'', PList []),
                       (''layers'', PDict [(''added'', PList []), (''updated'', PList []),
                                           (''removed'', PList [])])])"
proof -
  from assms(1) obtain m ms where S: "S = m # ms" by (cases S) auto
  obtain ks where ks: "flatten (PList (layer_details m)) = Inr ks" "list_all is_str ks"
    using flatten_dicts assms(2) S by auto
  have pool: "layer_pool_mapping3 S = Inr ks"
    using ks(1) by (simp add: S layer_pool_mapping3_def list_document_data_sources_mapping3_def bind_res_def)
  have "compare_layers_mapping3 ord S S = Inr (layers_result init_state)"
    using match_layers_str [OF ks(2) ks(2)]
    by (simp add: compare_layers_mapping3_def pool bind_res_def)
  then show ?thesis
    using compare_data_frames_same [OF assms(1)]
    by (simp add: compare_mapping3_def bind_res_def layers_result_def init_state_def)
qed

theorem compare_same_witness:
  "compare_mapping3 id [map_of_layers [roads_2020]] [map_of_layers [roads_2020]]
   = Inr (PDict [(''dataFrames'', PList []),
                 (''layers'', PDict [(''added'', PList []), (''updated'', PList []),
                                     (''removed'', PList [])])])"
proof -
  have "[map_of_layers [roads_2020]] \<noteq> []" by simp
  moreover have "list_all is_dict (layer_details (hd [map_of_layers [roads_2020]]))"
    by (simp add: map_of_layers_def roads_2020_def)
  ultimately show ?thesis by (rule compare_same)
qed

section \<open>The partition made by the correlation\<close>

lemmas match_simps = match_layers_def match_phase_def corr_tests_def init_state_def
  process_b_def b_if_def same_id_def same_name_def same_datasource_def unresolved_def
  is_resolved_a_def is_resolved_b_def dict_has_def dict_mark_def on_match_def eq_mapping3_def
  res_simps matched_pairs_def

lemmas diff_simps = layer_diff_mapping3_def layer_tests_mapping3_def
  layer_diff_step_mapping3_def express_diff_mapping3_def


lemma named_cases:
  assumes "named l"
  obtains d n where "l = PDict d" "map_of d ''name'' = Some (PStr n)" "layer_name l = PStr n"
proof -
  from assms obtain d where d: "l = PDict d" by (cases l) (simp_all add: named_def)
  with assms obtain n where "layer_name l = PStr n"
    by (cases "layer_name l") (simp_all add: named_def)
  with d have "map_of d ''name'' = Some (PStr n)"
    by (simp add: layer_name_def split: option.splits)
  with d \<open>layer_name l = PStr n\<close> show ?thesis using that by blast
qed

lemma named_getitem: "named l \<Longrightarrow> py_getitem l ''name'' = Inr (layer_name l)"
  by (erule named_cases) simp

lemma py_eq_PStr [simp]: "py_eq (PStr n) k \<longleftrightarrow> k = PStr n"
  by (cases k) auto

lemma dict_has_str: "is_str k \<Longrightarrow> dict_has keys k = Inr (k \<in> set keys)"
  by (cases k) (auto simp: dict_has_def list_ex_iff)

lemma dict_mark_str: "is_str k \<Longrightarrow> \<exists>ks. dict_mark keys k = Inr ks \<and> set ks = insert k (set keys)"
  by (cases k) (auto simp: dict_mark_def list_ex_iff)

lemma named_is_str: "named l \<Longrightarrow> is_str (layer_name l)"
  by (simp add: named_def)

lemma map_of_update_other:
  "k' \<noteq> k \<Longrightarrow> map_of (map (\<lambda>(j, w). if j = k then (j, v) else (j, w)) d) k' = map_of d k'"
  by (induction d) auto

lemma setitem_named:
  assumes "named l" "py_setitem l ''diff'' v = Inr l'"
  shows "named l' \<and> layer_name l' = layer_name l"
proof -
  from assms(1) obtain d n where d: "l = PDict d" "map_of d ''name'' = Some (PStr n)"
    "layer_name l = PStr n" by (rule named_cases)
  from assms(2) d obtain d' where d': "l' = PDict d'" "map_of d' ''name'' = map_of d ''name''"
    by (auto simp: map_of_update_other split: if_splits)
  then show ?thesis using d by (simp add: named_def layer_name_def)
qed

lemma on_match_effect:
  assumes "named a" "named (b_layer st)" "on_match ldiff ign a st = (st', Inr brk)"
  shows "run_rel (layer_name (b_layer st)) {layer_name a} True st st'"
proof -
  obtain ra where ra: "dict_mark (resolved_a st) (layer_name a) = Inr ra"
    "set ra = insert (layer_name a) (set (resolved_a st))"
    using dict_mark_str [OF named_is_str [OF assms(1)]] by blast
  obtain rb where rb: "dict_mark (resolved_b st) (layer_name (b_layer st)) = Inr rb"
    "set rb = insert (layer_name (b_layer st)) (set (resolved_b st))"
    using dict_mark_str [OF named_is_str [OF assms(2)]] by blast
  from assms(3) obtain d b' where d: "ldiff a (b_layer st) = Inr d"
    "py_setitem (b_layer st) ''diff'' (PList d) = Inr b'"
    by (auto simp: on_match_def named_getitem [OF assms(1)] named_getitem [OF assms(2)] ra rb
        bind_res_def Let_def split: sum.splits)
  have nb: "named b' \<and> layer_name b' = layer_name (b_layer st)"
    using setitem_named [OF assms(2) d(2)] .
  from assms(3) show ?thesis
    using ra(2) rb(2) nb
    by (auto simp: on_match_def named_getitem [OF assms(1)] named_getitem [OF assms(2)] ra rb d
        bind_res_def Let_def run_rel_def split: if_splits)
qed

lemma run_rel_refl: "named (b_layer st) \<Longrightarrow> run_rel (layer_name (b_layer st)) {} False st st"
  by (simp add: run_rel_def)

lemma run_rel_trans:
  "run_rel nb A h st st' \<Longrightarrow> run_rel nb A' h' st' st'' \<Longrightarrow> run_rel nb (A \<union> A') (h \<or> h') st st''"
  by (auto simp: run_rel_def)

lemma run_rel_unmatched:
  "named (b_layer st) \<Longrightarrow> run_rel (layer_name (b_layer st)) {} False st (st\<lparr>matched := PNone\<rparr>)"
  by (simp add: run_rel_def)

lemma run_rel_matched:
  "run_rel nb A True (st\<lparr>matched := m\<rparr>) st' \<Longrightarrow> run_rel nb A True st st'"
  by (auto simp: run_rel_def)

lemma tests_loop_effect:
  assumes "named a" "named (b_layer st)" "tests_loop ldiff tests a st = (st', None)"
  shows "run_rel (layer_name (b_layer st))
           (if tests_loop_pairs ldiff tests a b st = [] then {} else {layer_name a})
           (tests_loop_pairs ldiff tests a b st \<noteq> []) st st'
         \<and> set (tests_loop_pairs ldiff tests a b st) \<subseteq> {(a, b)}"
  using assms(2,3)
proof (induction tests arbitrary: st)
  case Nil
  then show ?case by (simp add: run_rel_refl)
next
  case (Cons test tests)
  let ?ign = "case ignore test of Some c \<Rightarrow> c = True | None \<Rightarrow> False"
  let ?P = "tests_loop_pairs ldiff (test # tests) a b st"
  from Cons.prems(2) obtain m where m: "fn test st a (b_layer st) = Inr m"
    by (cases "fn test st a (b_layer st)") (simp_all add: Let_def)
  show ?case
  proof (cases "m = PNone")
    case True
    let ?st1 = "st\<lparr>matched := PNone\<rparr>"
    have run: "tests_loop ldiff tests a ?st1 = (st', None)"
      using Cons.prems(2) m True by (simp add: Let_def)
    have nb: "named (b_layer ?st1)" using Cons.prems(1) by simp
    have same: "?P = tests_loop_pairs ldiff tests a b ?st1"
      using m True by (simp add: Let_def)
    from Cons.IH [OF nb run]
    have "run_rel (layer_name (b_layer st))
            (if tests_loop_pairs ldiff tests a b ?st1 = [] then {} else {layer_name a})
            (tests_loop_pairs ldiff tests a b ?st1 \<noteq> []) ?st1 st'"
      and sub: "set (tests_loop_pairs ldiff tests a b ?st1) \<subseteq> {(a, b)}" by simp_all
    with run_rel_trans [OF run_rel_unmatched [OF Cons.prems(1)]]
    have "run_rel (layer_name (b_layer st))
            ({} \<union> (if tests_loop_pairs ldiff tests a b ?st1 = [] then {} else {layer_name a}))
            (False \<or> tests_loop_pairs ldiff tests a b ?st1 \<noteq> []) st st'" by blast
    then show ?thesis using sub by (simp add: same del: tests_loop_pairs.simps)
  next
    case False
    let ?st1 = "st\<lparr>matched := m\<rparr>"
    have nb1: "named (b_layer ?st1)" using Cons.prems(1) by simp
    from Cons.prems(2) m False obtain st2 brk where om: "on_match ldiff ?ign a ?st1 = (st2, Inr brk)"
      by (cases "on_match ldiff ?ign a ?st1"; cases "snd (on_match ldiff ?ign a ?st1)")
         (auto simp: Let_def)
    have r1: "run_rel (layer_name (b_layer st)) {layer_name a} True st st2"
      using on_match_effect [OF assms(1) nb1 om] by (auto intro: run_rel_matched)
    show ?thesis
    proof (cases brk)
      case True
      then have "st' = st2" using Cons.prems(2) m False om by (simp add: Let_def)
      moreover have "?P = [(a, b)]"
        using m False om True by (simp add: Let_def)
      ultimately show ?thesis using r1 by (simp del: tests_loop_pairs.simps)
    next
      case nobrk: False
      have run: "tests_loop ldiff tests a st2 = (st', None)"
        using Cons.prems(2) m False om nobrk by (simp add: Let_def)
      have nb2: "named (b_layer st2)" and n2: "layer_name (b_layer st2) = layer_name (b_layer st)"
        using r1 by (simp_all add: run_rel_def)
      from Cons.IH [OF nb2 run]
      have r2: "run_rel (layer_name (b_layer st))
            (if tests_loop_pairs ldiff tests a b st2 = [] then {} else {layer_name a})
            (tests_loop_pairs ldiff tests a b st2 \<noteq> []) st2 st'"
        and sub: "set (tests_loop_pairs ldiff tests a b st2) \<subseteq> {(a, b)}" by (simp_all add: n2)
      have "run_rel (layer_name (b_layer st))
              ({layer_name a} \<union> (if tests_loop_pairs ldiff tests a b st2 = [] then {} else {layer_name a}))
              (True \<or> tests_loop_pairs ldiff tests a b st2 \<noteq> []) st st'"
        using run_rel_trans [OF r1 r2] .
      moreover have "{layer_name a} \<union> (if tests_loop_pairs ldiff tests a b st2 = [] then {} else {layer_name a})
              = {layer_name a}" by simp
      ultimately have "run_rel (layer_name (b_layer st)) {layer_name a} True st st'"
        by (simp only: simp_thms)
      moreover have "?P = (a, b) # tests_loop_pairs ldiff tests a b st2"
        using m False om nobrk by (simp add: Let_def)
      ultimately show ?thesis using sub by (simp del: tests_loop_pairs.simps)
    qed
  qed
qed

lemma a_loop_effect:
  assumes "list_all named as" "named (b_layer st)" "a_loop ldiff tests as st = (st', None)"
  shows "run_rel (layer_name (b_layer st)) (layer_name ` fst ` set (a_loop_pairs ldiff tests as b st))
           (a_loop_pairs ldiff tests as b st \<noteq> []) st st'
         \<and> fst ` set (a_loop_pairs ldiff tests as b st) \<subseteq> set as
         \<and> snd ` set (a_loop_pairs ldiff tests as b st) \<subseteq> {b}"
  using assms
proof (induction as arbitrary: st)
  case Nil
  then show ?case by (simp add: run_rel_refl)
next
  case (Cons a as)
  let ?Pa = "tests_loop_pairs ldiff tests a b st"
  from Cons.prems(3) obtain st1 where t: "tests_loop ldiff tests a st = (st1, None)"
    and run: "a_loop ldiff tests as st1 = (st', None)"
    by (cases "tests_loop ldiff tests a st") (auto split: option.splits)
  have na: "named a" and nas: "list_all named as" using Cons.prems(1) by simp_all
  from tests_loop_effect [OF na Cons.prems(2) t, of b]
  have r1: "run_rel (layer_name (b_layer st)) (if ?Pa = [] then {} else {layer_name a})
              (?Pa \<noteq> []) st st1" and sub1: "set ?Pa \<subseteq> {(a, b)}" by simp_all
  have nb1: "named (b_layer st1)" and n1: "layer_name (b_layer st1) = layer_name (b_layer st)"
    using r1 by (simp_all add: run_rel_def)
  let ?Pr = "a_loop_pairs ldiff tests as b st1"
  from Cons.IH [OF nas nb1 run]
  have r2: "run_rel (layer_name (b_layer st)) (layer_name ` fst ` set ?Pr) (?Pr \<noteq> []) st1 st'"
    and sub2: "fst ` set ?Pr \<subseteq> set as" "snd ` set ?Pr \<subseteq> {b}" by (simp_all add: n1)
  have P: "a_loop_pairs ldiff tests (a # as) b st = ?Pa @ ?Pr" using t by simp
  have A: "(if ?Pa = [] then {} else {layer_name a}) = layer_name ` fst ` set ?Pa"
    using sub1 by (cases ?Pa) auto
  have "run_rel (layer_name (b_layer st)) (layer_name ` fst ` set ?Pa \<union> layer_name ` fst ` set ?Pr)
          (?Pa \<noteq> [] \<or> ?Pr \<noteq> []) st st'"
    using run_rel_trans [OF r1 r2] by (simp add: A)
  moreover have "layer_name ` fst ` set ?Pa \<union> layer_name ` fst ` set ?Pr
      = layer_name ` fst ` set (?Pa @ ?Pr)" by auto
  moreover have "fst ` set (?Pa @ ?Pr) \<subseteq> set (a # as)" using sub1 sub2(1) by auto
  moreover have "snd ` set (?Pa @ ?Pr) \<subseteq> {b}" using sub1 sub2(2) by auto
  ultimately show ?case by (simp add: P del: a_loop_pairs.simps)
qed


lemma process_b_effect:
  assumes "list_all named as" "named b" "layer_name b \<notin> set (resolved_b st)"
    "process_b ldiff tests as b st = (st', None)"
  shows "set (resolved_a st') = set (resolved_a st)
           \<union> layer_name ` fst ` set (a_loop_pairs ldiff tests as b
                                        (st\<lparr>b_layer := b, aliases := 0, matched := PNone\<rparr>))"
    and "set (resolved_b st') = insert (layer_name b) (set (resolved_b st))"
    and "added st' = (if a_loop_pairs ldiff tests as b
                            (st\<lparr>b_layer := b, aliases := 0, matched := PNone\<rparr>) = []
                      then added st @ [b] else added st)"
    and "removed st' = removed st"
    and "fst ` set (a_loop_pairs ldiff tests as b
                      (st\<lparr>b_layer := b, aliases := 0, matched := PNone\<rparr>)) \<subseteq> set as"
    and "snd ` set (a_loop_pairs ldiff tests as b
                      (st\<lparr>b_layer := b, aliases := 0, matched := PNone\<rparr>)) \<subseteq> {b}"
proof -
  let ?st0 = "st\<lparr>b_layer := b, aliases := 0, matched := PNone\<rparr>"
  let ?P = "a_loop_pairs ldiff tests as b ?st0"
  from assms(4) obtain st1 where al: "a_loop ldiff tests as ?st0 = (st1, None)"
    by (cases "a_loop ldiff tests as ?st0") (auto simp: process_b_def split: option.splits)
  have nb0: "named (b_layer ?st0)" using assms(2) by simp
  from a_loop_effect [OF assms(1) nb0 al, of b]
  have r: "run_rel (layer_name b) (layer_name ` fst ` set ?P) (?P \<noteq> []) ?st0 st1"
    and sub: "fst ` set ?P \<subseteq> set as" "snd ` set ?P \<subseteq> {b}" by simp_all
  from sub show "fst ` set ?P \<subseteq> set as" "snd ` set ?P \<subseteq> {b}" .
  have nb1: "named (b_layer st1)" and n1: "layer_name (b_layer st1) = layer_name b"
    using r by (simp_all add: run_rel_def)
  have rb1: "set (resolved_b st1) = set (resolved_b st) \<union> (if ?P \<noteq> [] then {layer_name b} else {})"
    using r by (simp add: run_rel_def)
  have ra1: "set (resolved_a st1) = set (resolved_a st) \<union> layer_name ` fst ` set ?P"
    using r by (simp add: run_rel_def)
  have keep: "added st1 = added st" "removed st1 = removed st"
    using r by (simp_all add: run_rel_def)
  have J: "matched st1 \<noteq> PNone \<longrightarrow> layer_name b \<in> set (resolved_b st1)"
    using r unfolding run_rel_def by auto
  have res: "is_resolved_b st1 (b_layer st1) = Inr (?P \<noteq> [])"
    using rb1 assms(3)
    by (simp add: is_resolved_b_def named_getitem [OF nb1] bind_res_def n1
        dict_has_str [OF named_is_str [OF assms(2)]])
  obtain rb where rb: "dict_mark (resolved_b st1) (layer_name b) = Inr rb"
    "set rb = insert (layer_name b) (set (resolved_b st1))"
    using dict_mark_str [OF named_is_str [OF assms(2)]] by blast
  show "set (resolved_a st') = set (resolved_a st) \<union> layer_name ` fst ` set ?P"
    and "set (resolved_b st') = insert (layer_name b) (set (resolved_b st))"
    and "added st' = (if ?P = [] then added st @ [b] else added st)"
    and "removed st' = removed st"
  proof -
    consider (hit) "?P \<noteq> []" | (miss) "?P = []" by blast
    then have "set (resolved_a st') = set (resolved_a st) \<union> layer_name ` fst ` set ?P
      \<and> set (resolved_b st') = insert (layer_name b) (set (resolved_b st))
      \<and> added st' = (if ?P = [] then added st @ [b] else added st)
      \<and> removed st' = removed st"
    proof cases
      case hit
      then have "st' = st1" using assms(4) al res
        by (cases "matched st1 = PNone") (simp_all add: process_b_def)
      then show ?thesis using hit ra1 rb1 keep by auto
    next
      case miss
      then have m: "matched st1 = PNone" using J rb1 assms(3) by auto
      have b1: "b_layer st1 = b" using r miss by (simp add: run_rel_def)
      have "st' = st1\<lparr>resolved_b := rb, added := added st1 @ [b]\<rparr>"
        using assms(4) al res miss m rb(1) b1
        by (simp add: process_b_def named_getitem [OF assms(2)] bind_res_def)
      then show ?thesis using miss ra1 rb1 rb(2) keep by auto
    qed
    then show "set (resolved_a st') = set (resolved_a st) \<union> layer_name ` fst ` set ?P"
      and "set (resolved_b st') = insert (layer_name b) (set (resolved_b st))"
      and "added st' = (if ?P = [] then added st @ [b] else added st)"
      and "removed st' = removed st" by simp_all
  qed
qed

lemma pairs_empty: "snd ` set P \<subseteq> {b} \<Longrightarrow> b \<notin> snd ` set P \<Longrightarrow> P = []"
  by (cases P) auto

lemma b_loop_effect:
  assumes "list_all named as" "list_all named bs" "distinct (map layer_name bs)"
    "layer_name ` set bs \<inter> set (resolved_b st) = {}"
    "b_loop ldiff tests as bs st = (st', None)"
  shows "set (resolved_a st') = set (resolved_a st)
           \<union> layer_name ` fst ` set (b_loop_pairs ldiff tests as bs st)
       \<and> set (resolved_b st') = set (resolved_b st) \<union> layer_name ` set bs
       \<and> added st' = added st @ filter (\<lambda>b. b \<notin> snd ` set (b_loop_pairs ldiff tests as bs st)) bs
       \<and> removed st' = removed st
       \<and> fst ` set (b_loop_pairs ldiff tests as bs st) \<subseteq> set as
       \<and> snd ` set (b_loop_pairs ldiff tests as bs st) \<subseteq> set bs"
  using assms(2-5)
proof (induction bs arbitrary: st)
  case Nil
  then show ?case by simp
next
  case (Cons b bs)
  let ?st0 = "st\<lparr>b_layer := b, aliases := 0, matched := PNone\<rparr>"
  let ?Pb = "a_loop_pairs ldiff tests as b ?st0"
  from Cons.prems(4) obtain st1 where pb: "process_b ldiff tests as b st = (st1, None)"
    and run: "b_loop ldiff tests as bs st1 = (st', None)"
    by (cases "process_b ldiff tests as b st") (auto split: option.splits)
  let ?Pr = "b_loop_pairs ldiff tests as bs st1"
  have P: "b_loop_pairs ldiff tests as (b # bs) st = ?Pb @ ?Pr" using pb by simp
  have nb: "named b" and nbs: "list_all named bs" using Cons.prems(1) by simp_all
  have fresh: "layer_name b \<notin> set (resolved_b st)" using Cons.prems(3) by auto
  note e = process_b_effect [OF assms(1) nb fresh pb]
  have dis: "distinct (map layer_name bs)" and notin: "layer_name b \<notin> layer_name ` set bs"
    using Cons.prems(2) by simp_all
  have fresh': "layer_name ` set bs \<inter> set (resolved_b st1) = {}"
    using Cons.prems(3) notin e(2) by auto
  from Cons.IH [OF nbs dis fresh' run]
  have ih: "set (resolved_a st') = set (resolved_a st1) \<union> layer_name ` fst ` set ?Pr"
    "set (resolved_b st') = set (resolved_b st1) \<union> layer_name ` set bs"
    "added st' = added st1 @ filter (\<lambda>b. b \<notin> snd ` set ?Pr) bs"
    "removed st' = removed st1"
    "fst ` set ?Pr \<subseteq> set as" "snd ` set ?Pr \<subseteq> set bs" by simp_all
  have b_notin: "b \<notin> set bs" using notin by auto
  have fb: "(b \<notin> snd ` set (?Pb @ ?Pr)) = (?Pb = [])"
  proof
    assume "b \<notin> snd ` set (?Pb @ ?Pr)"
    then have "b \<notin> snd ` set ?Pb" by auto
    with e(6) show "?Pb = []" by (rule pairs_empty)
  next
    assume "?Pb = []"
    then show "b \<notin> snd ` set (?Pb @ ?Pr)" using ih(6) b_notin by auto
  qed
  have frest: "filter (\<lambda>x. x \<notin> snd ` set (?Pb @ ?Pr)) bs = filter (\<lambda>x. x \<notin> snd ` set ?Pr) bs"
  proof (rule filter_cong [OF refl])
    fix x assume "x \<in> set bs"
    then have "x \<noteq> b" using b_notin by auto
    then have "x \<notin> snd ` set ?Pb" using e(6) by auto
    then show "(x \<notin> snd ` set (?Pb @ ?Pr)) = (x \<notin> snd ` set ?Pr)" by auto
  qed
  have "set (resolved_a st') = set (resolved_a st) \<union> layer_name ` fst ` set (?Pb @ ?Pr)"
    using ih(1) e(1) by auto
  moreover have "set (resolved_b st') = set (resolved_b st) \<union> layer_name ` set (b # bs)"
    using ih(2) e(2) by auto
  moreover have "added st' = added st @ filter (\<lambda>x. x \<notin> snd ` set (?Pb @ ?Pr)) (b # bs)"
    using ih(3) e(3) fb frest by (simp del: set_append)
  moreover have "removed st' = removed st" using ih(4) e(4) by simp
  moreover have "fst ` set (?Pb @ ?Pr) \<subseteq> set as" using ih(5) e(5) by auto
  moreover have "snd ` set (?Pb @ ?Pr) \<subseteq> set (b # bs)" using ih(6) e(6) by auto
  ultimately show ?case by (simp only: P simp_thms)
qed

lemma removed_loop_effect:
  assumes "list_all named as" "distinct (map layer_name as)" "removed_loop as st = (st', None)"
  shows "removed st' = removed st @ filter (\<lambda>a. layer_name a \<notin> set (resolved_a st)) as
       \<and> added st' = added st \<and> set (resolved_a st) \<subseteq> set (resolved_a st')
       \<and> resolved_b st' = resolved_b st"
  using assms
proof (induction as arbitrary: st)
  case Nil
  then show ?case by simp
next
  case (Cons a as)
  have na: "named a" and nas: "list_all named as" using Cons.prems(1) by simp_all
  have dis: "distinct (map layer_name as)" and notin: "layer_name a \<notin> layer_name ` set as"
    using Cons.prems(2) by simp_all
  have res: "is_resolved_a st a = Inr (layer_name a \<in> set (resolved_a st))"
    by (simp add: is_resolved_a_def named_getitem [OF na] bind_res_def
        dict_has_str [OF named_is_str [OF na]])
  obtain ra where ra: "dict_mark (resolved_a st) (layer_name a) = Inr ra"
    "set ra = insert (layer_name a) (set (resolved_a st))"
    using dict_mark_str [OF named_is_str [OF na]] by blast
  show ?case
  proof (cases "layer_name a \<in> set (resolved_a st)")
    case True
    then have run: "removed_loop as st = (st', None)" using Cons.prems(3) res by simp
    from Cons.IH [OF nas dis run] True show ?thesis by simp
  next
    case False
    let ?st1 = "st\<lparr>resolved_a := ra, removed := removed st @ [a]\<rparr>"
    have run: "removed_loop as ?st1 = (st', None)"
      using Cons.prems(3) res False ra(1) by (simp add: named_getitem [OF na] bind_res_def)
    have "filter (\<lambda>x. layer_name x \<notin> set (resolved_a ?st1)) as
          = filter (\<lambda>x. layer_name x \<notin> set (resolved_a st)) as"
    proof (rule filter_cong [OF refl])
      fix x assume "x \<in> set as"
      then have "layer_name x \<in> layer_name ` set as" by (rule imageI)
      then have "layer_name x \<noteq> layer_name a" using notin by metis
      then show "(layer_name x \<notin> set (resolved_a ?st1)) = (layer_name x \<notin> set (resolved_a st))"
        using ra(2) by simp
    qed
    with Cons.IH [OF nas dis run] False ra(2) show ?thesis by auto
  qed
qed

lemma b_if_holds: "b_if c b = Inr m \<Longrightarrow> m \<noteq> PNone \<Longrightarrow> c = Inr True"
  by (cases c) (auto simp: b_if_def bind_res_def split: if_splits)

lemma and_res_True: "and_res x y = Inr True \<Longrightarrow> x = Inr True \<and> y = Inr True"
  by (cases x) (auto simp: and_res_def split: if_splits)

lemma not_res_True: "not_res x = Inr True \<Longrightarrow> x = Inr False"
  by (cases x) (auto simp: not_res_def)

lemma unresolved_True:
  "unresolved s a b = Inr True \<Longrightarrow> is_resolved_a s a = Inr False \<and> is_resolved_b s b = Inr False"
  by (auto simp: unresolved_def dest!: and_res_True not_res_True)

lemma guarded_tests:
  assumes "test \<in> set (tl (corr_tests eqf))" "fn test s a b = Inr m" "m \<noteq> PNone"
  shows "is_resolved_a s a = Inr False \<and> is_resolved_b s b = Inr False"
proof -
  have "unresolved s a b = Inr True"
    using assms by (auto simp: corr_tests_def dest!: b_if_holds and_res_True)
  then show ?thesis by (rule unresolved_True)
qed

text \<open>
  C2, as the claim states it, fails on two counts. With two before-layers named \<open>A\<close> and
  one after-layer, the second before-layer is neither matched nor removed (the bookkeeping
  is keyed by name). With before-layers \<open>X\<close> and \<open>Y\<close> of one id and data set and the
  after-layer \<open>Y\<close>, the after-layer is matched twice: with \<open>X\<close> by the third rule, and
  again with \<open>Y\<close> by the first rule, which does not ask whether a layer is resolved; it
  is listed twice in \<^verbatim>\<open>updated\<close>.
\<close>

theorem correlation_counterexample:
  "snd (match_layers (layer_diff_mapping3 id) eq_mapping3 [layer_a1, layer_a2] [layer_a1]) = None \<and>
   matched_pairs (layer_diff_mapping3 id) eq_mapping3 [layer_a1, layer_a2] [layer_a1]
     = [(layer_a1, layer_a1)] \<and>
   removed (fst (match_layers (layer_diff_mapping3 id) eq_mapping3 [layer_a1, layer_a2] [layer_a1]))
     = [] \<and>
   layer_a2 \<noteq> layer_a1 \<and>
   matched_pairs (layer_diff_mapping3 id) eq_mapping3 [layer_x, layer_y] [layer_y]
     = [(layer_x, layer_y), (layer_y, layer_y)] \<and>
   length (updated (fst (match_layers (layer_diff_mapping3 id) eq_mapping3
                            [layer_x, layer_y] [layer_y]))) = 2"
  by (simp add: match_simps diff_simps layer_a1_def layer_a2_def layer_x_def layer_y_def)

text \<open>
  C2, amended. When every layer of either pool is a record with a string \<^verbatim>\<open>name\<close>, no two
  layers of a pool have the same name, and the correlation runs to its end (no exception is
  caught): the removed layers are exactly the before-layers that were not matched, the
  added layers exactly the after-layers that were not matched, so that every before-layer is
  either matched or removed and every after-layer either matched or added, never both; the
  names of the two members of every matched pair are marked resolved; and the rules after
  the first match no pair with a resolved member.
\<close>

theorem correlation_partition:
  assumes "distinctly_named a_layers" and "distinctly_named b_layers"
    and "snd (match_layers ldiff eqf a_layers b_layers) = None"
  shows "removed (fst (match_layers ldiff eqf a_layers b_layers))
           = filter (\<lambda>a. a \<notin> fst ` set (matched_pairs ldiff eqf a_layers b_layers)) a_layers
       \<and> added (fst (match_layers ldiff eqf a_layers b_layers))
           = filter (\<lambda>b. b \<notin> snd ` set (matched_pairs ldiff eqf a_layers b_layers)) b_layers
       \<and> fst ` set (matched_pairs ldiff eqf a_layers b_layers) \<subseteq> set a_layers
       \<and> snd ` set (matched_pairs ldiff eqf a_layers b_layers) \<subseteq> set b_layers
       \<and> (\<forall>(a, b) \<in> set (matched_pairs ldiff eqf a_layers b_layers).
            layer_name a \<in> set (resolved_a (fst (match_layers ldiff eqf a_layers b_layers))) \<and>
            layer_name b \<in> set (resolved_b (fst (match_layers ldiff eqf a_layers b_layers))))
       \<and> (\<forall>test \<in> set (tl (corr_tests eqf)). \<forall>s a b m.
            fn test s a b = Inr m \<longrightarrow> m \<noteq> PNone \<longrightarrow>
            is_resolved_a s a = Inr False \<and> is_resolved_b s b = Inr False)"
proof -
  let ?P = "matched_pairs ldiff eqf a_layers b_layers"
  obtain st where st: "match_layers ldiff eqf a_layers b_layers = (st, None)"
    using assms(3) by (cases "match_layers ldiff eqf a_layers b_layers") simp
  have na: "list_all named a_layers" and da: "distinct (map layer_name a_layers)"
    and nb: "list_all named b_layers" and db: "distinct (map layer_name b_layers)"
    using assms(1,2) by (simp_all add: distinctly_named_def)
  from st obtain st1 where
    bl: "b_loop ldiff (corr_tests eqf) a_layers b_layers init_state = (st1, None)"
    and rl: "removed_loop a_layers st1 = (st, None)"
    by (cases "match_phase ldiff eqf a_layers b_layers")
       (auto simp: match_layers_def match_phase_def split: option.splits)
  have fresh: "layer_name ` set b_layers \<inter> set (resolved_b init_state) = {}"
    by (simp add: init_state_def)
  from b_loop_effect [OF na nb db fresh bl]
  have b: "set (resolved_a st1) = layer_name ` fst ` set ?P"
    "set (resolved_b st1) = layer_name ` set b_layers"
    "added st1 = filter (\<lambda>b. b \<notin> snd ` set ?P) b_layers"
    "removed st1 = []"
    "fst ` set ?P \<subseteq> set a_layers" "snd ` set ?P \<subseteq> set b_layers"
    by (simp_all add: matched_pairs_def init_state_def)
  from removed_loop_effect [OF na da rl]
  have r: "removed st = removed st1 @ filter (\<lambda>a. layer_name a \<notin> set (resolved_a st1)) a_layers"
    "added st = added st1" "set (resolved_a st1) \<subseteq> set (resolved_a st)"
    "resolved_b st = resolved_b st1" by simp_all
  have inj: "inj_on layer_name (set a_layers)" using da by (simp add: distinct_map)
  have "filter (\<lambda>a. layer_name a \<notin> set (resolved_a st1)) a_layers
        = filter (\<lambda>a. a \<notin> fst ` set ?P) a_layers"
  proof (rule filter_cong [OF refl])
    fix a assume a: "a \<in> set a_layers"
    show "(layer_name a \<notin> set (resolved_a st1)) = (a \<notin> fst ` set ?P)"
      using inj_on_image_mem_iff [OF inj a b(5)] by (simp add: b(1))
  qed
  then have "removed st = filter (\<lambda>a. a \<notin> fst ` set ?P) a_layers" using r(1) b(4) by simp
  moreover have "added st = filter (\<lambda>b. b \<notin> snd ` set ?P) b_layers" using r(2) b(3) by simp
  moreover have "\<forall>(a, b) \<in> set ?P. layer_name a \<in> set (resolved_a st) \<and> layer_name b \<in> set (resolved_b st)"
    using b(1,2,6) r(3,4) by force
  ultimately show ?thesis using b(5,6) guarded_tests [of _ eqf] by (simp add: st)
qed

theorem correlation_partition_witness:
  "removed (fst (match_layers (layer_diff_mapping3 id) eq_mapping3
                   [roads_2020, layer_a2] [roads_2021, layer_x])) = [layer_a2] \<and>
   added (fst (match_layers (layer_diff_mapping3 id) eq_mapping3
                 [roads_2020, layer_a2] [roads_2021, layer_x])) = [layer_x] \<and>
   matched_pairs (layer_diff_mapping3 id) eq_mapping3 [roads_2020, layer_a2] [roads_2021, layer_x]
     = [(roads_2020, roads_2021)]"
proof -
  have a: "distinctly_named [roads_2020, layer_a2]"
    by (simp add: distinctly_named_def named_def layer_name_def layer_a2_def roads_2020_def)
  have b: "distinctly_named [roads_2021, layer_x]"
    by (simp add: distinctly_named_def named_def layer_name_def layer_x_def roads_2021_def)
  have run: "snd (match_layers (layer_diff_mapping3 id) eq_mapping3
                    [roads_2020, layer_a2] [roads_2021, layer_x]) = None"
    by (simp add: match_simps diff_simps layer_x_def layer_a2_def roads_2020_def roads_2021_def)
  have pairs: "matched_pairs (layer_diff_mapping3 id) eq_mapping3
                 [roads_2020, layer_a2] [roads_2021, layer_x] = [(roads_2020, roads_2021)]"
    by (simp add: match_simps diff_simps layer_x_def layer_a2_def roads_2020_def roads_2021_def)
  have ne: "layer_a2 \<noteq> roads_2020" "layer_x \<noteq> roads_2021"
    by (simp_all add: layer_x_def layer_a2_def roads_2020_def roads_2021_def)
  from correlation_partition [OF a b run] show ?thesis
    using ne by (simp add: pairs)
qed


end
